theory Spec2Isabelle
  imports Complex_Main "HOL-Library.Multiset" "HOL-Library.Sublist"
begin

section \<open>Column values\<close>

text \<open>
  A numeric column of a pandas frame holds floats, and a missing entry is NaN. A finite
  float is the real number it denotes; \<open>None\<close> is NaN (pandas' null). The columns of the two
  dashboards hold probabilities and coordinates, so the infinities are left out.
\<close>

type_synonym pyfloat = "real option"

text \<open>\<open>x >= t\<close> on a column entry and a slider value: every comparison with NaN is false.\<close>

definition fge :: "pyfloat \<Rightarrow> real \<Rightarrow> bool" where
  "fge x t = (case x of None \<Rightarrow> False | Some v \<Rightarrow> t \<le> v)"

text \<open>
  \<open>x * y\<close> on two column entries. The float product is the exact product rounded to a
  representable number; \<open>rnd\<close> is that rounding (the identity for exact arithmetic,
  round-to-nearest-even for IEEE doubles). NaN is absorbing.
\<close>

definition fmul :: "(real \<Rightarrow> real) \<Rightarrow> pyfloat \<Rightarrow> pyfloat \<Rightarrow> pyfloat" where
  "fmul rnd x y =
     (case x of None \<Rightarrow> None
      | Some a \<Rightarrow> (case y of None \<Rightarrow> None | Some b \<Rightarrow> Some (rnd (a * b))))"

section \<open>Rows of the frames\<close>

text \<open>
  The frames carry the columns the two scripts name. \<open>risk_cell\<close> is a row of
  \<open><county>_hotspot_forecast.csv\<close>; a feature of \<open><county>_hotspot_forecast.geojson\<close> has
  the same properties and a point geometry (\<open>None\<close>: a missing or empty geometry);
  \<open>geo_row\<close> is that feature once \<open>lon\<close> and \<open>lat\<close> have been read off the geometry.
  \<open>enhanced_row\<close> is a row of \<open><county>_hotspot_enhanced.csv\<close>, \<open>merged_row\<close> the same row
  after the merge with the coordinates (its two coordinate columns are \<open>df_lon\<close> and
  \<open>df_lat\<close> here, the names \<open>lon\<close> and \<open>lat\<close> being taken by \<open>geo_row\<close>), and \<open>risk_row\<close>
  a merged row with the \<open>compound_risk\<close> column.
\<close>

record risk_cell =
  cell_id :: nat
  mid_date :: string
  p_hotspot_next :: pyfloat

record point_row = risk_cell +
  geometry :: "(real \<times> real) option"

record geo_row = point_row +
  lon :: pyfloat
  lat :: pyfloat

record enhanced_row = risk_cell +
  anomaly_prob_norm :: pyfloat

record merged_row = enhanced_row +
  df_lon :: pyfloat
  df_lat :: pyfloat

record risk_row = merged_row +
  compound_risk :: pyfloat

section \<open>Libraries and exceptions\<close>

text \<open>
  What the scripts take from geopandas, shapely, pyproj, pandas and numpy is a
  parameter: the reprojection of a point to EPSG:4326; the \<open>within\<close> predicate of a point
  and a boundary geometry (true for the points of its interior); the union of the
  geometries of a frame (\<open>None\<close> when the library raises, as it does on an invalid
  polygon); the bounding box \<open>(minx, miny, maxx, maxy)\<close> of a geometry; \<open>Series.mean()\<close>
  of a column, which skips the nulls and sums and divides in double precision; and
  the order in which \<open>sort_values(col, ascending=False)\<close> puts the rows of a column, as
  the list of their positions (descending, nulls last; which of two rows with equal
  keys comes first is the library's choice).
\<close>

record 'g library =
  to_crs :: "real \<times> real \<Rightarrow> real \<times> real"
  pt_within :: "real \<times> real \<Rightarrow> 'g \<Rightarrow> bool"
  union_all :: "'g list \<Rightarrow> 'g option"
  geom_bounds :: "'g \<Rightarrow> real \<times> real \<times> real \<times> real"
  series_mean :: "pyfloat list \<Rightarrow> pyfloat"
  argsort_desc :: "pyfloat list \<Rightarrow> nat list"

text \<open>
  The exceptions that end a run: a file that is missing or cannot be parsed, and the
  \<open>KeyError\<close> of a frame that lacks a column.
\<close>

datatype py_error = FileNotFound | Malformed | KeyError string

section \<open>The combined dashboard: merge, threshold filter, compound score\<close>

text \<open>
  \<open>gdf[["cell_id", "lon", "lat"]]\<close>: the three columns of the point frame. A GeoJSON file
  without features reads as a frame with the geometry column only, so the selection
  raises \<open>KeyError\<close> on it.
\<close>

definition select_coordinates ::
  "geo_row list \<Rightarrow> py_error + (nat \<times> pyfloat \<times> pyfloat) list" where
  "select_coordinates gdf =
     (if gdf = [] then Inl (KeyError ''cell_id'')
      else Inr (map (\<lambda>g. (cell_id g, lon g, lat g)) gdf))"

text \<open>
  \<open>df.merge(..., on="cell_id", how="left")\<close>: every row of the left frame, in order, once
  for each row of the right frame with the same key, with that row's \<open>lon\<close> and \<open>lat\<close>, and
  once with null coordinates when the right frame has none.
\<close>

definition attach :: "enhanced_row \<Rightarrow> pyfloat \<Rightarrow> pyfloat \<Rightarrow> merged_row" where
  "attach r x y =
     \<lparr>cell_id = cell_id r, mid_date = mid_date r, p_hotspot_next = p_hotspot_next r,
      anomaly_prob_norm = anomaly_prob_norm r, df_lon = x, df_lat = y\<rparr>"

definition merge_row :: "(nat \<times> pyfloat \<times> pyfloat) list \<Rightarrow> enhanced_row \<Rightarrow> merged_row list" where
  "merge_row right r =
     (case filter (\<lambda>(c, x, y). c = cell_id r) right of
        [] \<Rightarrow> [attach r None None]
      | ms \<Rightarrow> map (\<lambda>(c, x, y). attach r x y) ms)"

definition merge_left ::
  "enhanced_row list \<Rightarrow> (nat \<times> pyfloat \<times> pyfloat) list \<Rightarrow> merged_row list" where
  "merge_left df right = concat (map (merge_row right) df)"

datatype layer_mode = HotspotOnly | MobilityOnly | CombinedRisk

text \<open>The \<open>if\<close>/\<open>elif\<close> chain on \<open>layer_mode\<close> that cuts \<open>df_view\<close> out of \<open>df\<close>.\<close>

definition df_view :: "layer_mode \<Rightarrow> real \<Rightarrow> real \<Rightarrow> merged_row list \<Rightarrow> merged_row list" where
  "df_view layer hotspot_threshold anomaly_threshold df =
     (case layer of
        HotspotOnly \<Rightarrow> filter (\<lambda>r. fge (p_hotspot_next r) hotspot_threshold) df
      | MobilityOnly \<Rightarrow> filter (\<lambda>r. fge (anomaly_prob_norm r) anomaly_threshold) df
      | CombinedRisk \<Rightarrow>
          filter (\<lambda>r. fge (p_hotspot_next r) hotspot_threshold \<and>
                       fge (anomaly_prob_norm r) anomaly_threshold) df)"

text \<open>
  \<open>df_view["compound_risk"] = df_view["p_hotspot_next"] * df_view["anomaly_prob_norm"]\<close>,
  row by row.
\<close>

definition with_compound :: "(real \<Rightarrow> real) \<Rightarrow> merged_row \<Rightarrow> risk_row" where
  "with_compound rnd r =
     \<lparr>cell_id = cell_id r, mid_date = mid_date r, p_hotspot_next = p_hotspot_next r,
      anomaly_prob_norm = anomaly_prob_norm r, df_lon = df_lon r, df_lat = df_lat r,
      compound_risk = fmul rnd (p_hotspot_next r) (anomaly_prob_norm r)\<rparr>"

text \<open>
  The frame handed to the map, the table and the download: without the
  \<open>compound_risk\<close> column in the two single-signal modes, with it in the combined mode.
\<close>

datatype view = Plain "merged_row list" | WithRisk "risk_row list"

definition weighted_view :: "(real \<Rightarrow> real) \<Rightarrow> layer_mode \<Rightarrow> merged_row list \<Rightarrow> view" where
  "weighted_view rnd layer v =
     (case layer of
        HotspotOnly \<Rightarrow> Plain v
      | MobilityOnly \<Rightarrow> Plain v
      | CombinedRisk \<Rightarrow> WithRisk (map (with_compound rnd) v))"

text \<open>
  The heatmap layer reads \<open>lon\<close>, \<open>lat\<close> and the column named by \<open>weight_field\<close> from
  each row of the view.
\<close>

definition heatmap_data ::
  "(real \<Rightarrow> real) \<Rightarrow> layer_mode \<Rightarrow> merged_row list \<Rightarrow> (pyfloat \<times> pyfloat \<times> pyfloat) list" where
  "heatmap_data rnd layer v =
     (case layer of
        HotspotOnly \<Rightarrow> map (\<lambda>r. (df_lon r, df_lat r, p_hotspot_next r)) v
      | MobilityOnly \<Rightarrow> map (\<lambda>r. (df_lon r, df_lat r, anomaly_prob_norm r)) v
      | CombinedRisk \<Rightarrow>
          map (\<lambda>r. (df_lon r, df_lat r, compound_risk r)) (map (with_compound rnd) v))"

section \<open>Tables and delimited text\<close>

text \<open>
  \<open>sort_values(col, ascending=False)\<close>: the rows in the order the library gives for the
  column.
\<close>

definition sort_values_desc :: "'g library \<Rightarrow> ('a \<Rightarrow> pyfloat) \<Rightarrow> 'a list \<Rightarrow> 'a list" where
  "sort_values_desc G k xs =
     map (\<lambda>i. xs ! i) (filter (\<lambda>i. i < length xs) (argsort_desc G (map k xs)))"

text \<open>
  A frame as \<open>to_csv(index=False)\<close> writes it and \<open>read_csv\<close> reads it: the column names,
  then one record of fields for each row. An empty field is a null.
\<close>

datatype cell = CInt nat | CStr string | CFloat pyfloat

record csv =
  csv_columns :: "string list"
  csv_rows :: "cell list list"

definition risk_cell_cells :: "risk_cell \<Rightarrow> cell list" where
  "risk_cell_cells r = [CInt (cell_id r), CStr (mid_date r), CFloat (p_hotspot_next r)]"

definition merged_cells :: "merged_row \<Rightarrow> cell list" where
  "merged_cells r =
     [CInt (cell_id r), CStr (mid_date r), CFloat (p_hotspot_next r),
      CFloat (anomaly_prob_norm r), CFloat (df_lon r), CFloat (df_lat r)]"

definition risk_cells :: "risk_row \<Rightarrow> cell list" where
  "risk_cells r =
     [CInt (cell_id r), CStr (mid_date r), CFloat (p_hotspot_next r),
      CFloat (anomaly_prob_norm r), CFloat (df_lon r), CFloat (df_lat r),
      CFloat (compound_risk r)]"

definition merged_columns :: "string list" where
  "merged_columns =
     [''cell_id'', ''mid_date'', ''p_hotspot_next'', ''anomaly_prob_norm'', ''lon'', ''lat'']"

definition table_to_csv :: "risk_cell list \<Rightarrow> csv" where
  "table_to_csv df =
     \<lparr>csv_columns = [''cell_id'', ''mid_date'', ''p_hotspot_next''],
      csv_rows = map risk_cell_cells df\<rparr>"

definition view_to_csv :: "view \<Rightarrow> csv" where
  "view_to_csv v =
     (case v of
        Plain rs \<Rightarrow> \<lparr>csv_columns = merged_columns, csv_rows = map merged_cells rs\<rparr>
      | WithRisk rs \<Rightarrow>
          \<lparr>csv_columns = merged_columns @ [''compound_risk''], csv_rows = map risk_cells rs\<rparr>)"





text \<open>
  The table under the map: \<open>df_view[display_cols].sort_values("p_hotspot_next",
  ascending=False).head(30)\<close>, where \<open>display_cols\<close> gains \<open>compound_risk\<close> when the view
  has that column. The projection keeps the sort column, so the rows are sorted first.
\<close>

definition display_table :: "'g library \<Rightarrow> view \<Rightarrow> csv" where
  "display_table G v =
     (case v of
        Plain rs \<Rightarrow>
          \<lparr>csv_columns = [''cell_id'', ''mid_date'', ''p_hotspot_next'', ''anomaly_prob_norm''],
           csv_rows = take 30 (map (\<lambda>r. take 4 (merged_cells r))
                                   (sort_values_desc G p_hotspot_next rs))\<rparr>
      | WithRisk rs \<Rightarrow>
          \<lparr>csv_columns = [''cell_id'', ''mid_date'', ''p_hotspot_next'', ''anomaly_prob_norm'',
                          ''compound_risk''],
           csv_rows = take 30 (map (\<lambda>r. take 4 (risk_cells r) @ [CFloat (compound_risk r)])
                                   (sort_values_desc G p_hotspot_next rs))\<rparr>)"

section \<open>Files and loaders\<close>

text \<open>
  The files under \<open>../data/processed\<close>, by the key \<open>county_name.lower()\<close>: what reading
  each gives, a frame or the exception raised. \<open>boundary_geojson\<close> is
  \<open>gpd.read_file(...).to_crs(4326)\<close>, the geometries of the boundary frame.
\<close>

record 'g files =
  forecast_geojson :: "string \<Rightarrow> py_error + point_row list"
  forecast_csv :: "string \<Rightarrow> py_error + risk_cell list"
  enhanced_csv :: "string \<Rightarrow> py_error + enhanced_row list"
  boundary_geojson :: "string \<Rightarrow> py_error + 'g list"

definition lower_char :: "char \<Rightarrow> char" where
  "lower_char c =
     (case map_of (zip ''ABCDEFGHIJKLMNOPQRSTUVWXYZ'' ''abcdefghijklmnopqrstuvwxyz'') c of
        None \<Rightarrow> c
      | Some l \<Rightarrow> l)"

definition lower_str :: "string \<Rightarrow> string" where
  "lower_str s = map lower_char s"

text \<open>
  \<open>boundary.dissolve().reset_index(drop=True)\<close>: the frame of one feature, the union of
  all; an empty frame stays empty.
\<close>

definition dissolve :: "'g library \<Rightarrow> 'g list \<Rightarrow> 'g list option" where
  "dissolve G b = (if b = [] then Some [] else map_option (\<lambda>u. [u]) (union_all G b))"

text \<open>
  \<open>load_data\<close> of \<open>streamlit_app.py\<close>. The two required reads are not guarded. The
  boundary starts as \<open>None\<close> and is assigned twice inside the \<open>try\<close>: an exception of the
  read leaves \<open>None\<close>, an exception of \<open>dissolve\<close> leaves the frame as it was read.
\<close>

definition load_data ::
  "'g library \<Rightarrow> 'g files \<Rightarrow> string
     \<Rightarrow> py_error + (point_row list \<times> risk_cell list \<times> 'g list option)" where
  "load_data G fs county_name =
     (let key = lower_str county_name in
      case forecast_geojson fs key of
        Inl e \<Rightarrow> Inl e
      | Inr gdf_points \<Rightarrow>
          (case forecast_csv fs key of
             Inl e \<Rightarrow> Inl e
           | Inr df_table \<Rightarrow>
               Inr (gdf_points, df_table,
                    (case boundary_geojson fs key of
                       Inl e \<Rightarrow> None
                     | Inr b \<Rightarrow> (case dissolve G b of None \<Rightarrow> Some b | Some d \<Rightarrow> Some d)))))"

text \<open>
  \<open>load_data\<close> of \<open>streamlit1_app.py\<close>: the table first, then the points; any exception
  inside the \<open>try\<close> sets the boundary to \<open>None\<close>.
\<close>

definition load_data1 ::
  "'g library \<Rightarrow> 'g files \<Rightarrow> string
     \<Rightarrow> py_error + (enhanced_row list \<times> point_row list \<times> 'g list option)" where
  "load_data1 G fs county_name =
     (let key = lower_str county_name in
      case enhanced_csv fs key of
        Inl e \<Rightarrow> Inl e
      | Inr df \<Rightarrow>
          (case forecast_geojson fs key of
             Inl e \<Rightarrow> Inl e
           | Inr gdf \<Rightarrow>
               Inr (df, gdf,
                    (case boundary_geojson fs key of
                       Inl e \<Rightarrow> None
                     | Inr b \<Rightarrow> dissolve G b))))"

text \<open>
  \<open>gdf.to_crs(4326)\<close>, then \<open>lon\<close> and \<open>lat\<close> from \<open>geometry.x\<close> and \<open>geometry.y\<close> (NaN for
  a missing geometry).
\<close>

definition prep_row :: "'g library \<Rightarrow> point_row \<Rightarrow> geo_row" where
  "prep_row G r =
     (let g = map_option (to_crs G) (geometry r) in
      \<lparr>cell_id = cell_id r, mid_date = mid_date r, p_hotspot_next = p_hotspot_next r,
       geometry = g, lon = map_option fst g, lat = map_option snd g\<rparr>)"

definition prep :: "'g library \<Rightarrow> point_row list \<Rightarrow> geo_row list" where
  "prep G gdf = map (prep_row G) gdf"

section \<open>The hotspot dashboard\<close>

text \<open>
  \<open>gpd.sjoin(gdf, boundary, predicate="within", how="inner")\<close>: a row of the left frame
  for every feature of the right frame that it lies within, in the order of the left
  frame. A row without geometry lies within nothing. The attribute columns that the
  join copies from the boundary are left out.
\<close>

definition row_within :: "'g library \<Rightarrow> geo_row \<Rightarrow> 'g \<Rightarrow> bool" where
  "row_within G r g = (case geometry r of None \<Rightarrow> False | Some xy \<Rightarrow> pt_within G xy g)"

definition sjoin :: "'g library \<Rightarrow> geo_row list \<Rightarrow> 'g list \<Rightarrow> geo_row list" where
  "sjoin G gdf boundary =
     concat (map (\<lambda>r. map (\<lambda>g. r) (filter (row_within G r) boundary)) gdf)"

text \<open>The join runs under \<open>boundary is not None and len(boundary)\<close>.\<close>

definition spatial_filter :: "'g library \<Rightarrow> 'g list option \<Rightarrow> geo_row list \<Rightarrow> geo_row list" where
  "spatial_filter G boundary gdf =
     (case boundary of
        None \<Rightarrow> gdf
      | Some b \<Rightarrow> if b \<noteq> [] then sjoin G gdf b else gdf)"

text \<open>\<open>gdf[gdf["p_hotspot_next"] >= threshold]\<close>, and the count in the subheader.\<close>

definition gdf_view :: "real \<Rightarrow> geo_row list \<Rightarrow> geo_row list" where
  "gdf_view threshold gdf = filter (\<lambda>r. fge (p_hotspot_next r) threshold) gdf"

definition flagged :: "real \<Rightarrow> geo_row list \<Rightarrow> nat" where
  "flagged threshold gdf = length (filter (\<lambda>r. fge (p_hotspot_next r) threshold) gdf)"

text \<open>
  \<open>total_bounds\<close>: the least and greatest coordinates over the bounding boxes of a frame,
  NaN when there is none.
\<close>

fun nanmin :: "real list \<Rightarrow> pyfloat" where
  "nanmin [] = None"
| "nanmin (x # xs) = Some (fold min xs x)"

fun nanmax :: "real list \<Rightarrow> pyfloat" where
  "nanmax [] = None"
| "nanmax (x # xs) = Some (fold max xs x)"

definition total_bounds ::
  "(real \<times> real \<times> real \<times> real) list \<Rightarrow> pyfloat \<times> pyfloat \<times> pyfloat \<times> pyfloat" where
  "total_bounds bs =
     (nanmin (map (\<lambda>(minx, miny, maxx, maxy). minx) bs),
      nanmin (map (\<lambda>(minx, miny, maxx, maxy). miny) bs),
      nanmax (map (\<lambda>(minx, miny, maxx, maxy). maxx) bs),
      nanmax (map (\<lambda>(minx, miny, maxx, maxy). maxy) bs))"

definition point_boxes :: "geo_row list \<Rightarrow> (real \<times> real \<times> real \<times> real) list" where
  "point_boxes gdf =
     concat (map (\<lambda>r. case geometry r of None \<Rightarrow> [] | Some (x, y) \<Rightarrow> [(x, y, x, y)]) gdf)"

text \<open>
  \<open>(a + b) / 2\<close> on two entries in double precision: the sum is rounded, then the
  quotient; NaN when either entry is.
\<close>

definition half_sum :: "(real \<Rightarrow> real) \<Rightarrow> pyfloat \<Rightarrow> pyfloat \<Rightarrow> pyfloat" where
  "half_sum rnd a b =
     (case a of None \<Rightarrow> None
      | Some x \<Rightarrow> (case b of None \<Rightarrow> None | Some y \<Rightarrow> Some (rnd (rnd (x + y) / 2))))"

text \<open>
  The extent the view is centred on: the boundary's when it is available, else that of
  the points when there are rows, else the fixed one. \<open>gdf\<close> is the frame after the
  spatial filter. The result is \<open>(center_lat, center_lon)\<close>.
\<close>

definition view_extent ::
  "'g library \<Rightarrow> 'g list option \<Rightarrow> geo_row list \<Rightarrow> pyfloat \<times> pyfloat \<times> pyfloat \<times> pyfloat" where
  "view_extent G boundary gdf =
     (let points_or_default =
            (if gdf \<noteq> [] then total_bounds (point_boxes gdf)
             else (Some 35, Some 2, Some 37, Some 5))
      in case boundary of
           None \<Rightarrow> points_or_default
         | Some b \<Rightarrow>
             if b \<noteq> [] then total_bounds (map (geom_bounds G) b) else points_or_default)"

definition center ::
  "(real \<Rightarrow> real) \<Rightarrow> 'g library \<Rightarrow> 'g list option \<Rightarrow> geo_row list \<Rightarrow> pyfloat \<times> pyfloat" where
  "center rnd G boundary gdf =
     (case view_extent G boundary gdf of
        (minx, miny, maxx, maxy) \<Rightarrow> (half_sum rnd miny maxy, half_sum rnd minx maxx))"

text \<open>
  The fill colour of a grid cell, \<open>[r, g, b, 200]\<close>: the three nested conditionals of
  \<open>get_fill_color\<close> on \<open>p_hotspot_next\<close>. A decimal literal stands for the float nearest to
  it.
\<close>

definition get_fill_color :: "pyfloat \<Rightarrow> nat \<times> nat \<times> nat \<times> nat" where
  "get_fill_color p =
     (if fge p 0.80 then 220 else if fge p 0.60 then 255 else if fge p 0.40 then 255 else 150,
      if fge p 0.80 then 50 else if fge p 0.60 then 127 else if fge p 0.40 then 215 else 150,
      if fge p 0.80 then 47 else if fge p 0.60 then 0 else if fge p 0.40 then 0 else 150,
      200)"

text \<open>
  The legend under the map: four swatches, each a \<open>background\<close> colour and a label. The
  labels read "< 0.40 Low", "0.40-0.59 Moderate", "0.60-0.79 High" and ">= 0.80 Very
  High"; an entry here is the lower bound its label gives (none for the first) and
  the colour.
\<close>

definition legend :: "(real option \<times> string) list" where
  "legend =
     [(None, ''#969696''), (Some 0.40, ''#FFD700''), (Some 0.60, ''#FF7F00''),
      (Some 0.80, ''#DC3230'')]"

definition hex_digit :: "char \<Rightarrow> nat" where
  "hex_digit c =
     (let n = (of_char c :: nat) in
      if 48 \<le> n \<and> n \<le> 57 then n - 48
      else if 65 \<le> n \<and> n \<le> 70 then n - 55
      else if 97 \<le> n \<and> n \<le> 102 then n - 87
      else 0)"

fun hex_rgb :: "string \<Rightarrow> nat \<times> nat \<times> nat" where
  "hex_rgb [h, r1, r0, g1, g0, b1, b0] =
     (16 * hex_digit r1 + hex_digit r0, 16 * hex_digit g1 + hex_digit g0,
      16 * hex_digit b1 + hex_digit b0)"
| "hex_rgb s = (0, 0, 0)"

text \<open>The swatch a value falls under: the last entry whose lower bound it reaches.\<close>

definition legend_swatch :: "pyfloat \<Rightarrow> string" where
  "legend_swatch p =
     (case rev (filter (\<lambda>(lo, colour). case lo of None \<Rightarrow> True | Some b \<Rightarrow> fge p b) legend) of
        [] \<Rightarrow> []
      | (lo, colour) # es \<Rightarrow> colour)"

text \<open>
  One run of \<open>streamlit_app.py\<close> for a county and a threshold: the rows on the map, the
  centre of the view, the count in the subheader, the table (the twenty rows of the
  forecast table with the highest risk) and the download (the forecast table). A
  points file without features has no \<open>p_hotspot_next\<close> column, and the threshold filter
  raises \<open>KeyError\<close> on it before anything is shown.
\<close>

record app_outputs =
  map_rows :: "geo_row list"
  view_center :: "pyfloat \<times> pyfloat"
  flagged_count :: nat
  top_table :: "risk_cell list"
  download :: csv

definition streamlit_app ::
  "(real \<Rightarrow> real) \<Rightarrow> 'g library \<Rightarrow> 'g files \<Rightarrow> string \<Rightarrow> real \<Rightarrow> py_error + app_outputs" where
  "streamlit_app rnd G fs county threshold =
     (case load_data G fs county of
        Inl e \<Rightarrow> Inl e
      | Inr (gdf0, df, boundary) \<Rightarrow>
          (let gdf = spatial_filter G boundary (prep G gdf0) in
           if gdf0 = [] then Inl (KeyError ''p_hotspot_next'')
           else Inr \<lparr>map_rows = gdf_view threshold gdf,
                     view_center = center rnd G boundary gdf,
                     flagged_count = flagged threshold gdf,
                     top_table = take 20 (sort_values_desc G p_hotspot_next df),
                     download = table_to_csv df\<rparr>))"

text \<open>
  One run of \<open>streamlit1_app.py\<close> for a county, two thresholds and a view mode: the
  filtered view, the points and weights of the heatmap, the centre of the view (the
  means of \<open>lat\<close> and \<open>lon\<close> over the merged frame), the table and the download; or the
  exception of the loader or of the column selection.
\<close>

record outputs1 =
  filtered :: view
  heatmap :: "(pyfloat \<times> pyfloat \<times> pyfloat) list"
  center1 :: "pyfloat \<times> pyfloat"
  table1 :: csv
  download1 :: csv

definition streamlit1_app ::
  "(real \<Rightarrow> real) \<Rightarrow> 'g library \<Rightarrow> 'g files \<Rightarrow> string \<Rightarrow> real \<Rightarrow> real \<Rightarrow> layer_mode
     \<Rightarrow> py_error + outputs1" where
  "streamlit1_app rnd G fs county hotspot_threshold anomaly_threshold layer =
     (case load_data1 G fs county of
        Inl e \<Rightarrow> Inl e
      | Inr (df0, gdf_geo, boundary) \<Rightarrow>
          (case select_coordinates (prep G gdf_geo) of
             Inl e \<Rightarrow> Inl e
           | Inr coords \<Rightarrow>
               (let df = merge_left df0 coords;
                    v = df_view layer hotspot_threshold anomaly_threshold df
                in Inr \<lparr>filtered = weighted_view rnd layer v,
                        heatmap = heatmap_data rnd layer v,
                        center1 = (series_mean G (map df_lat df), series_mean G (map df_lon df)),
                        table1 = display_table G (weighted_view rnd layer v),
                        download1 = view_to_csv (weighted_view rnd layer v)\<rparr>)))"

section \<open>The centre of the view in the specification's words\<close>

text \<open>
  The specification centres the view on the midpoint of a bounding box or of the
  coordinate extent of the data. \<open>coordinates\<close> are the points of a frame (rows without
  geometry have none); \<open>float_midpoint\<close> is the number halfway between two doubles, computed in
  double precision as the scripts do; \<open>extent_midpoint\<close> is \<open>(lat, lon)\<close> halfway between
  the least and the greatest latitude and longitude of a list of \<open>(lon, lat)\<close> points;
  \<open>bounding_box_midpoint\<close> is the same for the box around a list of boxes. Both are NaN
  for an empty list.
\<close>

definition coordinates :: "geo_row list \<Rightarrow> (real \<times> real) list" where
  "coordinates gdf = concat (map (\<lambda>r. case geometry r of None \<Rightarrow> [] | Some xy \<Rightarrow> [xy]) gdf)"

definition float_midpoint :: "(real \<Rightarrow> real) \<Rightarrow> real \<Rightarrow> real \<Rightarrow> real" where
  "float_midpoint rnd lo hi = rnd (rnd (lo + hi) / 2)"

definition extent_midpoint :: "(real \<Rightarrow> real) \<Rightarrow> (real \<times> real) list \<Rightarrow> pyfloat \<times> pyfloat" where
  "extent_midpoint rnd pts =
     (if pts = [] then (None, None)
      else (Some (float_midpoint rnd (Min (snd ` set pts)) (Max (snd ` set pts))),
            Some (float_midpoint rnd (Min (fst ` set pts)) (Max (fst ` set pts)))))"

definition bounding_box_midpoint ::
  "(real \<Rightarrow> real) \<Rightarrow> (real \<times> real \<times> real \<times> real) list \<Rightarrow> pyfloat \<times> pyfloat" where
  "bounding_box_midpoint rnd bs =
     (if bs = [] then (None, None)
      else (Some (float_midpoint rnd (Min ((\<lambda>(minx, miny, maxx, maxy). miny) ` set bs))
                               (Max ((\<lambda>(minx, miny, maxx, maxy). maxy) ` set bs))),
            Some (float_midpoint rnd (Min ((\<lambda>(minx, miny, maxx, maxy). minx) ` set bs))
                               (Max ((\<lambda>(minx, miny, maxx, maxy). maxx) ` set bs)))))"

section \<open>Example data\<close>

text \<open>
  Four cells with distinct identifiers (the third has no point in the geometry file),
  and a frame in which one cell has two rows, one for each of two dates.
\<close>

definition example_df :: "merged_row list" where
  "example_df =
     [\<lparr>cell_id = 1, mid_date = ''2024-01-09'', p_hotspot_next = Some 0.9,
       anomaly_prob_norm = Some 0.8, df_lon = Some 40, df_lat = Some 1\<rparr>,
      \<lparr>cell_id = 2, mid_date = ''2024-01-09'', p_hotspot_next = Some 0.7,
       anomaly_prob_norm = Some 0.3, df_lon = Some 40, df_lat = Some 2\<rparr>,
      \<lparr>cell_id = 3, mid_date = ''2024-01-09'', p_hotspot_next = Some 0.5,
       anomaly_prob_norm = Some 0.9, df_lon = None, df_lat = None\<rparr>,
      \<lparr>cell_id = 4, mid_date = ''2024-01-09'', p_hotspot_next = Some 0.2,
       anomaly_prob_norm = Some 0.1, df_lon = Some 41, df_lat = Some 2\<rparr>]"

definition repeated_df :: "merged_row list" where
  "repeated_df =
     [\<lparr>cell_id = 1, mid_date = ''2024-01-09'', p_hotspot_next = Some 0.9,
       anomaly_prob_norm = Some 0.1, df_lon = Some 40, df_lat = Some 1\<rparr>,
      \<lparr>cell_id = 1, mid_date = ''2024-01-25'', p_hotspot_next = Some 0.1,
       anomaly_prob_norm = Some 0.9, df_lon = Some 40, df_lat = Some 1\<rparr>]"

text \<open>
  The libraries of the examples. A boundary geometry is an axis-parallel box
  \<open>(minx, miny, maxx, maxy)\<close>, a point lies within it when it is in its interior, and the
  union of two or more boxes raises. The mean is exact and the rounding of the
  examples is the identity: every sum and quotient in them is a double without
  rounding. Rows with equal keys stay in their order.
\<close>

definition exact_mean :: "pyfloat list \<Rightarrow> pyfloat" where
  "exact_mean xs =
     (let vs = concat (map (\<lambda>x. case x of None \<Rightarrow> [] | Some v \<Rightarrow> [v]) xs)
      in if vs = [] then None else Some (sum_list vs / real (length vs)))"

definition desc_le :: "pyfloat \<Rightarrow> pyfloat \<Rightarrow> bool" where
  "desc_le a b =
     (case b of None \<Rightarrow> True
      | Some y \<Rightarrow> (case a of None \<Rightarrow> False | Some x \<Rightarrow> y \<le> x))"

fun insert_desc :: "('a \<Rightarrow> pyfloat) \<Rightarrow> 'a \<Rightarrow> 'a list \<Rightarrow> 'a list" where
  "insert_desc k x [] = [x]"
| "insert_desc k x (y # ys) =
     (if desc_le (k x) (k y) then x # y # ys else y # insert_desc k x ys)"

definition stable_argsort_desc :: "pyfloat list \<Rightarrow> nat list" where
  "stable_argsort_desc keys =
     map fst (foldr (insert_desc snd) (zip [0..<length keys] keys) [])"

definition box_ops :: "(real \<times> real \<times> real \<times> real) library" where
  "box_ops =
     \<lparr>to_crs = (\<lambda>xy. xy),
      pt_within = (\<lambda>(x, y) (minx, miny, maxx, maxy). minx < x \<and> x < maxx \<and> miny < y \<and> y < maxy),
      union_all = (\<lambda>bs. case bs of [b] \<Rightarrow> Some b | _ \<Rightarrow> None),
      geom_bounds = (\<lambda>b. b),
      series_mean = exact_mean,
      argsort_desc = stable_argsort_desc\<rparr>"

text \<open>
  The files of one county: three points (cell 3 has none), the forecast table, the
  enhanced table of the four cells above, and a boundary file that is given. In
  \<open>broken_files\<close> the forecast table is malformed and the enhanced table is missing.
\<close>

definition example_points :: "point_row list" where
  "example_points =
     [\<lparr>cell_id = 1, mid_date = ''2024-01-09'', p_hotspot_next = Some 0.9,
       geometry = Some (40, 0)\<rparr>,
      \<lparr>cell_id = 2, mid_date = ''2024-01-09'', p_hotspot_next = Some 0.7,
       geometry = Some (40, 0)\<rparr>,
      \<lparr>cell_id = 4, mid_date = ''2024-01-09'', p_hotspot_next = Some 0.2,
       geometry = Some (43, 3)\<rparr>]"

definition example_table :: "risk_cell list" where
  "example_table =
     [\<lparr>cell_id = 1, mid_date = ''2024-01-09'', p_hotspot_next = Some 0.9\<rparr>,
      \<lparr>cell_id = 2, mid_date = ''2024-01-09'', p_hotspot_next = Some 0.7\<rparr>,
      \<lparr>cell_id = 4, mid_date = ''2024-01-09'', p_hotspot_next = Some 0.2\<rparr>]"

definition example_enhanced :: "enhanced_row list" where
  "example_enhanced =
     [\<lparr>cell_id = 1, mid_date = ''2024-01-09'', p_hotspot_next = Some 0.9,
       anomaly_prob_norm = Some 0.8\<rparr>,
      \<lparr>cell_id = 2, mid_date = ''2024-01-09'', p_hotspot_next = Some 0.7,
       anomaly_prob_norm = Some 0.3\<rparr>,
      \<lparr>cell_id = 3, mid_date = ''2024-01-09'', p_hotspot_next = Some 0.5,
       anomaly_prob_norm = Some 0.9\<rparr>,
      \<lparr>cell_id = 4, mid_date = ''2024-01-09'', p_hotspot_next = Some 0.2,
       anomaly_prob_norm = Some 0.1\<rparr>]"

definition example_files ::
  "(py_error + (real \<times> real \<times> real \<times> real) list) \<Rightarrow> (real \<times> real \<times> real \<times> real) files" where
  "example_files boundary_file =
     \<lparr>forecast_geojson = (\<lambda>key. if key = ''wajir'' then Inr example_points else Inl FileNotFound),
      forecast_csv = (\<lambda>key. if key = ''wajir'' then Inr example_table else Inl FileNotFound),
      enhanced_csv = (\<lambda>key. if key = ''wajir'' then Inr example_enhanced else Inl FileNotFound),
      boundary_geojson = (\<lambda>key. if key = ''wajir'' then boundary_file else Inl FileNotFound)\<rparr>"

text \<open>The files of a county whose points file has no features.\<close>

definition no_features :: "(real \<times> real \<times> real \<times> real) files" where
  "no_features =
     \<lparr>forecast_geojson = (\<lambda>key. if key = ''wajir'' then Inr [] else Inl FileNotFound),
      forecast_csv = (\<lambda>key. if key = ''wajir'' then Inr example_table else Inl FileNotFound),
      enhanced_csv = (\<lambda>key. if key = ''wajir'' then Inr example_enhanced else Inl FileNotFound),
      boundary_geojson = (\<lambda>key. Inl FileNotFound)\<rparr>"

text \<open>
  A boundary of two overlapping parts, whose union raises in the library of the
  examples; the first two points lie within both parts.
\<close>

definition two_parts :: "(real \<times> real \<times> real \<times> real) list" where
  "two_parts = [(39, -1, 41, 1), (39, -1, 42, 2)]"

definition broken_files :: "(real \<times> real \<times> real \<times> real) files" where
  "broken_files =
     \<lparr>forecast_geojson = (\<lambda>key. if key = ''wajir'' then Inr example_points else Inl FileNotFound),
      forecast_csv = (\<lambda>key. Inl Malformed),
      enhanced_csv = (\<lambda>key. Inl FileNotFound),
      boundary_geojson = (\<lambda>key. Inr [(39, -1, 41, 1)])\<rparr>"

section \<open>Threshold filter\<close>

lemma fge_mono: "t \<le> t' \<Longrightarrow> fge x t' \<Longrightarrow> fge x t"
  by (cases x) (simp_all add: fge_def)

lemma length_filter_mono:
  "(\<And>x. x \<in> set xs \<Longrightarrow> P x \<Longrightarrow> Q x) \<Longrightarrow> length (filter P xs) \<le> length (filter Q xs)"
  by (induction xs) auto

lemma df_view_length_antitone:
  assumes "t1 \<le> t1'" and "t2 \<le> t2'"
  shows "length (df_view layer t1' t2' df) \<le> length (df_view layer t1 t2 df)"
  using assms by (cases layer) (auto simp: df_view_def intro!: length_filter_mono elim: fge_mono)

lemma df_view_set_antitone:
  assumes "t1 \<le> t1'" and "t2 \<le> t2'"
  shows "set (df_view layer t1' t2' df) \<subseteq> set (df_view layer t1 t2 df)"
  using assms by (cases layer) (auto simp: df_view_def elim: fge_mono)

lemma gdf_view_length_antitone:
  "t \<le> t' \<Longrightarrow> length (gdf_view t' gdf) \<le> length (gdf_view t gdf)"
  by (auto simp: gdf_view_def intro!: length_filter_mono elim: fge_mono)

lemma df_view_combined:
  "df_view CombinedRisk t1 t2 df =
     filter (\<lambda>r. fge (p_hotspot_next r) t1 \<and> fge (anomaly_prob_norm r) t2) df"
  by (simp add: df_view_def)

lemma set_df_view_inter:
  "set (df_view CombinedRisk t1 t2 df) =
     set (df_view HotspotOnly t1 s df) \<inter> set (df_view MobilityOnly s' t2 df)"
  by (auto simp: df_view_def)

lemma cell_ids_inter_distinct:
  assumes "distinct (map cell_id df)"
  shows "cell_id ` set (df_view CombinedRisk t1 t2 df) =
     cell_id ` set (df_view HotspotOnly t1 s df) \<inter> cell_id ` set (df_view MobilityOnly s' t2 df)"
proof -
  have inj: "inj_on cell_id (set df)"
    using assms by (simp add: distinct_map)
  have sub1: "set (df_view HotspotOnly t1 s df) \<subseteq> set df"
    and sub2: "set (df_view MobilityOnly s' t2 df) \<subseteq> set df"
    by (auto simp: df_view_def)
  have "cell_id ` (set (df_view HotspotOnly t1 s df) \<inter> set (df_view MobilityOnly s' t2 df)) =
        cell_id ` set (df_view HotspotOnly t1 s df) \<inter> cell_id ` set (df_view MobilityOnly s' t2 df)"
    using inj sub1 sub2 by (rule inj_on_image_Int)
  then show ?thesis
    by (simp add: set_df_view_inter [of t1 t2 df s s'])
qed

text \<open>
  C1, as the program has it. The combined view is exactly the rows that meet both
  thresholds, and as a set of rows it is the intersection of the hotspot-only view at \<open>t1\<close>
  and the mobility-only view at \<open>t2\<close> (whatever the other slider shows in those modes). Its
  set of cell identifiers is contained in the intersection of the two views' sets of
  cell identifiers, and equals it when no two rows of the frame share a cell identifier.
\<close>

theorem combined_view_is_intersection:
  "df_view CombinedRisk t1 t2 df =
     filter (\<lambda>r. fge (p_hotspot_next r) t1 \<and> fge (anomaly_prob_norm r) t2) df
   \<and> set (df_view CombinedRisk t1 t2 df) =
       set (df_view HotspotOnly t1 s df) \<inter> set (df_view MobilityOnly s' t2 df)
   \<and> cell_id ` set (df_view CombinedRisk t1 t2 df) \<subseteq>
       cell_id ` set (df_view HotspotOnly t1 s df) \<inter> cell_id ` set (df_view MobilityOnly s' t2 df)
   \<and> (distinct (map cell_id df) \<longrightarrow>
        cell_id ` set (df_view CombinedRisk t1 t2 df) =
          cell_id ` set (df_view HotspotOnly t1 s df) \<inter>
          cell_id ` set (df_view MobilityOnly s' t2 df))"
proof -
  have "cell_id ` set (df_view CombinedRisk t1 t2 df) \<subseteq>
       cell_id ` set (df_view HotspotOnly t1 s df) \<inter> cell_id ` set (df_view MobilityOnly s' t2 df)"
    unfolding set_df_view_inter [of t1 t2 df s s'] by blast
  then show ?thesis
    using df_view_combined [of t1 t2 df] set_df_view_inter [of t1 t2 df s s']
      cell_ids_inter_distinct [of df t1 t2 s s']
    by simp
qed

theorem combined_view_is_intersection_witness:
  "distinct (map cell_id example_df)
   \<and> map cell_id (df_view CombinedRisk 0.6 0.5 example_df) = [1]
   \<and> cell_id ` set (df_view CombinedRisk 0.6 0.5 example_df) =
       cell_id ` set (df_view HotspotOnly 0.6 0.5 example_df) \<inter>
       cell_id ` set (df_view MobilityOnly 0.6 0.5 example_df)"
proof -
  have d: "distinct (map cell_id example_df)"
    by (simp add: example_df_def)
  have v: "map cell_id (df_view CombinedRisk 0.6 0.5 example_df) = [1]"
    by (simp add: df_view_def example_df_def fge_def)
  have e: "cell_id ` set (df_view CombinedRisk 0.6 0.5 example_df) =
       cell_id ` set (df_view HotspotOnly 0.6 0.5 example_df) \<inter>
       cell_id ` set (df_view MobilityOnly 0.6 0.5 example_df)"
    using combined_view_is_intersection [of "0.6" "0.5" example_df "0.5" "0.6"] d
    by blast
  show ?thesis
    by (intro conjI d v e)
qed

text \<open>
  With two rows for one cell, one above the hotspot threshold only and one above the
  anomaly threshold only, the cell is in both single-signal views and the combined view
  is empty.
\<close>

theorem combined_cell_ids_counterexample:
  "cell_id ` set (df_view CombinedRisk 0.5 0.5 repeated_df) = {}
   \<and> cell_id ` set (df_view HotspotOnly 0.5 0.5 repeated_df) \<inter>
       cell_id ` set (df_view MobilityOnly 0.5 0.5 repeated_df) = {1}"
  by (simp add: df_view_def repeated_df_def fge_def)

text \<open>
  C4. In every mode of the combined dashboard, and in the hotspot dashboard, raising a
  threshold never adds a row: the view at the higher thresholds has no more rows than,
  and only rows of, the view at the lower ones. The comparison is inclusive: a row whose
  value equals the threshold is kept (in the combined mode, a row that equals both).
\<close>

theorem raising_threshold_never_adds_rows:
  assumes "t1 \<le> t1'" and "t2 \<le> t2'"
  shows "length (df_view layer t1' t2' df) \<le> length (df_view layer t1 t2 df)
    \<and> set (df_view layer t1' t2' df) \<subseteq> set (df_view layer t1 t2 df)
    \<and> length (gdf_view t1' gdf) \<le> length (gdf_view t1 gdf)
    \<and> (\<forall>r \<in> set df. p_hotspot_next r = Some t1 \<longrightarrow> r \<in> set (df_view HotspotOnly t1 t2 df))
    \<and> (\<forall>r \<in> set df. anomaly_prob_norm r = Some t2 \<longrightarrow> r \<in> set (df_view MobilityOnly t1 t2 df))
    \<and> (\<forall>r \<in> set df. p_hotspot_next r = Some t1 \<and> anomaly_prob_norm r = Some t2 \<longrightarrow>
          r \<in> set (df_view CombinedRisk t1 t2 df))
    \<and> (\<forall>g \<in> set gdf. p_hotspot_next g = Some t1 \<longrightarrow> g \<in> set (gdf_view t1 gdf))"
proof -
  have incl: "\<And>t. fge (Some t) t"
    by (simp add: fge_def)
  have "\<forall>r \<in> set df. p_hotspot_next r = Some t1 \<longrightarrow> r \<in> set (df_view HotspotOnly t1 t2 df)"
    by (simp add: df_view_def incl)
  moreover have "\<forall>r \<in> set df. anomaly_prob_norm r = Some t2 \<longrightarrow> r \<in> set (df_view MobilityOnly t1 t2 df)"
    by (simp add: df_view_def incl)
  moreover have "\<forall>r \<in> set df. p_hotspot_next r = Some t1 \<and> anomaly_prob_norm r = Some t2 \<longrightarrow>
          r \<in> set (df_view CombinedRisk t1 t2 df)"
    by (simp add: df_view_def incl)
  moreover have "\<forall>g \<in> set gdf. p_hotspot_next g = Some t1 \<longrightarrow> g \<in> set (gdf_view t1 gdf)"
    by (simp add: gdf_view_def incl)
  ultimately show ?thesis
    using df_view_length_antitone [OF assms] df_view_set_antitone [OF assms]
      gdf_view_length_antitone [OF assms(1)]
    by simp
qed

theorem raising_threshold_never_adds_rows_witness:
  "length (df_view CombinedRisk 0.7 0.5 example_df) \<le> length (df_view CombinedRisk 0.5 0.3 example_df)
   \<and> length (df_view CombinedRisk 0.5 0.3 example_df) = 3
   \<and> length (df_view CombinedRisk 0.7 0.5 example_df) = 1
   \<and> hd example_df \<in> set (df_view CombinedRisk 0.9 0.8 example_df)"
proof -
  have a: "(0.5::real) \<le> 0.7" and b: "(0.3::real) \<le> 0.5"
    by simp_all
  have c: "(0.9::real) \<le> 0.9" and d: "(0.8::real) \<le> 0.8"
    by simp_all
  have e: "hd example_df \<in> set example_df"
    and f: "p_hotspot_next (hd example_df) = Some 0.9 \<and> anomaly_prob_norm (hd example_df) = Some 0.8"
    by (simp_all add: example_df_def)
  show ?thesis
    using raising_threshold_never_adds_rows [OF a b, of CombinedRisk example_df "[]"]
      raising_threshold_never_adds_rows [OF c d, of CombinedRisk example_df "[]"] e f
    by (simp add: df_view_def example_df_def fge_def)
qed

section \<open>Compound score\<close>

lemma surviving_row_has_both:
  assumes "r \<in> set (df_view CombinedRisk t1 t2 df)"
  shows "\<exists>p a. p_hotspot_next r = Some p \<and> anomaly_prob_norm r = Some a \<and> t1 \<le> p \<and> t2 \<le> a"
  using assms by (auto simp: df_view_def fge_def split: option.splits)

lemma rounded_product_bounds:
  fixes p a :: real
  assumes "mono rnd" and "rnd 0 = 0" and "rnd p = p" and "rnd a = a"
    and "0 \<le> p" and "p \<le> 1" and "0 \<le> a" and "a \<le> 1"
  shows "0 \<le> rnd (p * a) \<and> rnd (p * a) \<le> 1 \<and> rnd (p * a) \<le> min p a"
proof -
  have "0 \<le> p * a"
    using assms by simp
  then have "rnd 0 \<le> rnd (p * a)"
    using \<open>mono rnd\<close> by (simp add: monoD)
  then have lo: "0 \<le> rnd (p * a)"
    using assms by simp
  have "p * a \<le> p * 1"
    using assms by (intro mult_left_mono) simp_all
  then have "rnd (p * a) \<le> rnd p"
    using \<open>mono rnd\<close> by (simp add: monoD)
  then have hp: "rnd (p * a) \<le> p"
    using assms by simp
  have "p * a \<le> 1 * a"
    using assms by (intro mult_right_mono) simp_all
  then have "rnd (p * a) \<le> rnd a"
    using \<open>mono rnd\<close> by (simp add: monoD)
  then have ha: "rnd (p * a) \<le> a"
    using assms by simp
  show ?thesis
    using lo hp ha assms by simp
qed

text \<open>
  C2. Every row of the combined view has both values (a NaN does not pass the filter),
  and its \<open>compound_risk\<close> is their float product. When the two values are floats in
  \<open>[0, 1]\<close> and the rounding is monotone and keeps zero, as exact arithmetic and IEEE
  rounding do, the product lies in \<open>[0, 1]\<close> and is at most the smaller of the two.
\<close>

theorem compound_risk_is_bounded_product:
  assumes view: "weighted_view rnd CombinedRisk (df_view CombinedRisk t1 t2 df) = WithRisk rs"
    and row: "k \<in> set rs"
  shows "compound_risk k = fmul rnd (p_hotspot_next k) (anomaly_prob_norm k)
    \<and> (\<exists>p a. p_hotspot_next k = Some p \<and> anomaly_prob_norm k = Some a \<and>
           compound_risk k = Some (rnd (p * a)))
    \<and> (\<forall>p a. p_hotspot_next k = Some p \<and> anomaly_prob_norm k = Some a \<and>
           0 \<le> p \<and> p \<le> 1 \<and> 0 \<le> a \<and> a \<le> 1 \<and>
           mono rnd \<and> rnd 0 = 0 \<and> rnd p = p \<and> rnd a = a \<longrightarrow>
           (\<exists>c. compound_risk k = Some c \<and> 0 \<le> c \<and> c \<le> 1 \<and> c \<le> min p a))"
proof -
  from view have "rs = map (with_compound rnd) (df_view CombinedRisk t1 t2 df)"
    by (simp add: weighted_view_def)
  with row obtain r where r: "r \<in> set (df_view CombinedRisk t1 t2 df)" and k: "k = with_compound rnd r"
    by auto
  from surviving_row_has_both [OF r] obtain p a
    where pa: "p_hotspot_next r = Some p" "anomaly_prob_norm r = Some a"
    by blast
  have 1: "compound_risk k = fmul rnd (p_hotspot_next k) (anomaly_prob_norm k)"
    by (simp add: k with_compound_def)
  have 2: "p_hotspot_next k = Some p \<and> anomaly_prob_norm k = Some a \<and>
           compound_risk k = Some (rnd (p * a))"
    by (simp add: k with_compound_def pa fmul_def)
  have 3: "\<forall>p a. p_hotspot_next k = Some p \<and> anomaly_prob_norm k = Some a \<and>
           0 \<le> p \<and> p \<le> 1 \<and> 0 \<le> a \<and> a \<le> 1 \<and>
           mono rnd \<and> rnd 0 = 0 \<and> rnd p = p \<and> rnd a = a \<longrightarrow>
           (\<exists>c. compound_risk k = Some c \<and> 0 \<le> c \<and> c \<le> 1 \<and> c \<le> min p a)"
  proof (intro allI impI)
    fix p' a'
    assume h: "p_hotspot_next k = Some p' \<and> anomaly_prob_norm k = Some a' \<and>
           0 \<le> p' \<and> p' \<le> 1 \<and> 0 \<le> a' \<and> a' \<le> 1 \<and>
           mono rnd \<and> rnd 0 = 0 \<and> rnd p' = p' \<and> rnd a' = a'"
    with 2 have eq: "p' = p" "a' = a"
      by simp_all
    have "0 \<le> rnd (p * a) \<and> rnd (p * a) \<le> 1 \<and> rnd (p * a) \<le> min p a"
      using h unfolding eq by (intro rounded_product_bounds) simp_all
    then show "\<exists>c. compound_risk k = Some c \<and> 0 \<le> c \<and> c \<le> 1 \<and> c \<le> min p' a'"
      using 2 eq by simp
  qed
  from 1 2 3 show ?thesis
    by blast
qed

theorem compound_risk_is_bounded_product_witness:
  "weighted_view (\<lambda>x. x) CombinedRisk (df_view CombinedRisk 0.6 0.5 example_df) =
     WithRisk [with_compound (\<lambda>x. x) (hd example_df)]
   \<and> compound_risk (with_compound (\<lambda>x. x) (hd example_df)) = Some 0.72
   \<and> (\<exists>c. compound_risk (with_compound (\<lambda>x. x) (hd example_df)) = Some c \<and>
          0 \<le> c \<and> c \<le> 1 \<and> c \<le> min 0.9 0.8)"
proof -
  let ?k = "with_compound (\<lambda>x. x) (hd example_df)"
  have view: "weighted_view (\<lambda>x. x) CombinedRisk (df_view CombinedRisk 0.6 0.5 example_df) =
     WithRisk [?k]"
    by (simp add: weighted_view_def df_view_def example_df_def fge_def)
  have row: "?k \<in> set [?k]"
    by simp
  have c: "compound_risk ?k = Some 0.72"
    by (simp add: with_compound_def example_df_def fmul_def)
  have pre: "p_hotspot_next ?k = Some 0.9 \<and> anomaly_prob_norm ?k = Some 0.8 \<and>
      (0::real) \<le> 0.9 \<and> (0.9::real) \<le> 1 \<and> (0::real) \<le> 0.8 \<and> (0.8::real) \<le> 1 \<and>
      mono (\<lambda>x::real. x) \<and> (\<lambda>x::real. x) 0 = 0 \<and> (\<lambda>x::real. x) 0.9 = 0.9 \<and>
      (\<lambda>x::real. x) 0.8 = 0.8"
    by (simp add: with_compound_def example_df_def mono_def)
  have b: "\<exists>c. compound_risk ?k = Some c \<and> 0 \<le> c \<and> c \<le> 1 \<and> c \<le> min 0.9 0.8"
    using compound_risk_is_bounded_product [OF view row] pre
    by blast
  show ?thesis
    by (intro conjI view c b)
qed

section \<open>Risk merger\<close>

lemma truncate_attach: "enhanced_row.truncate (attach r x y) = r"
  by (simp add: enhanced_row.truncate_def attach_def)

lemma attach_fields: "cell_id (attach r x y) = cell_id r" "df_lon (attach r x y) = x"
  "df_lat (attach r x y) = y"
  by (simp_all add: attach_def)

lemma no_match_filter:
  "c \<notin> fst ` set right \<Longrightarrow> filter (\<lambda>(k, x, y). k = c) right = []"
  by (induction right) auto

lemma merge_row_no_match:
  "cell_id r \<notin> fst ` set right \<Longrightarrow> merge_row right r = [attach r None None]"
  by (simp add: merge_row_def no_match_filter)

lemma merge_row_match_set:
  assumes "cell_id r \<in> fst ` set right"
  shows "set (merge_row right r) = {attach r x y |x y. (cell_id r, x, y) \<in> set right}"
proof -
  from assms have "filter (\<lambda>(k, x, y). k = cell_id r) right \<noteq> []"
    by (auto simp: filter_empty_conv)
  then have "merge_row right r =
      map (\<lambda>(k, x, y). attach r x y) (filter (\<lambda>(k, x, y). k = cell_id r) right)"
    by (simp add: merge_row_def split: list.splits)
  then show ?thesis
    by (auto simp: image_iff) force
qed

lemma merge_row_cases:
  assumes "m \<in> set (merge_row right r)"
  shows "enhanced_row.truncate m = r \<and>
     (if cell_id r \<in> fst ` set right then (cell_id r, df_lon m, df_lat m) \<in> set right
      else df_lon m = None \<and> df_lat m = None)"
proof (cases "cell_id r \<in> fst ` set right")
  case True
  with assms obtain x y where "(cell_id r, x, y) \<in> set right" and "m = attach r x y"
    by (auto simp: merge_row_match_set)
  with True show ?thesis
    by (simp add: truncate_attach attach_fields)
next
  case False
  with assms have "m = attach r None None"
    by (simp add: merge_row_no_match)
  with False show ?thesis
    by (simp add: truncate_attach attach_fields)
qed

lemma merge_row_not_empty: "merge_row right r \<noteq> []"
  by (simp add: merge_row_def split: list.splits)

lemma merge_row_lookup:
  assumes "distinct (map fst right)"
  shows "merge_row right r =
     [case map_of right (cell_id r) of
        None \<Rightarrow> attach r None None
      | Some (x, y) \<Rightarrow> attach r x y]"
  using assms
proof (induction right)
  case Nil
  then show ?case by (simp add: merge_row_def)
next
  case (Cons a right)
  obtain c x y where a: "a = (c, x, y)"
    by (cases a) auto
  show ?case
  proof (cases "c = cell_id r")
    case True
    with Cons.prems a have "cell_id r \<notin> fst ` set right"
      by simp
    then have "filter (\<lambda>(k, x, y). k = cell_id r) right = []"
      by (rule no_match_filter)
    with True a show ?thesis
      by (simp add: merge_row_def)
  next
    case False
    have "merge_row (a # right) r = merge_row right r"
      using False a by (simp add: merge_row_def)
    also have "\<dots> = [case map_of right (cell_id r) of
        None \<Rightarrow> attach r None None
      | Some (x, y) \<Rightarrow> attach r x y]"
      using Cons by simp
    finally show ?thesis
      using False a by auto
  qed
qed

lemma merge_left_lookup:
  "distinct (map fst right) \<Longrightarrow>
     merge_left df right =
       map (\<lambda>r. case map_of right (cell_id r) of
                   None \<Rightarrow> attach r None None
                 | Some (x, y) \<Rightarrow> attach r x y) df"
  by (induction df) (simp_all add: merge_left_def merge_row_lookup)

lemma merge_left_truncate_distinct:
  "distinct (map fst right) \<Longrightarrow> map enhanced_row.truncate (merge_left df right) = df"
  by (induction df)
    (simp_all add: merge_left_def merge_row_lookup truncate_attach split: option.splits)

lemma merge_left_length: "length df \<le> length (merge_left df right)"
proof (induction df)
  case Nil
  then show ?case by (simp add: merge_left_def)
next
  case (Cons r df)
  have "1 \<le> length (merge_row right r)"
    using merge_row_not_empty [of right r] by (cases "merge_row right r") simp_all
  with Cons show ?case
    by (simp add: merge_left_def)
qed

text \<open>
  C7. The merge is a left join on \<open>cell_id\<close>. Every row of the table is the table part of
  some merged row and every merged row comes from a row of the table, so no row is
  lost. A row whose cell has no point is kept with null \<open>lon\<close> and \<open>lat\<close>, and every merged
  row of such a cell has null coordinates. A merged row whose cell has a point carries
  the \<open>lon\<close> and \<open>lat\<close> of a point with its \<open>cell_id\<close>, and every point of a row's cell
  gives a merged row of it with that point's coordinates. When no two points share a
  cell identifier the merge is the table, row for row, each row with the coordinates
  found under its \<open>cell_id\<close>. The right frame is the three columns of the point frame,
  and selecting them raises \<open>KeyError\<close> when the points file has no features.
\<close>

theorem merge_is_left_join:
  "(\<forall>r \<in> set df. \<exists>m \<in> set (merge_left df right). enhanced_row.truncate m = r)
   \<and> (\<forall>m \<in> set (merge_left df right). enhanced_row.truncate m \<in> set df)
   \<and> (\<forall>r \<in> set df. cell_id r \<notin> fst ` set right \<longrightarrow>
         attach r None None \<in> set (merge_left df right))
   \<and> (\<forall>m \<in> set (merge_left df right). cell_id m \<notin> fst ` set right \<longrightarrow>
         df_lon m = None \<and> df_lat m = None)
   \<and> (\<forall>m \<in> set (merge_left df right). cell_id m \<in> fst ` set right \<longrightarrow>
         (cell_id m, df_lon m, df_lat m) \<in> set right)
   \<and> (\<forall>r \<in> set df. \<forall>(c, x, y) \<in> set right. c = cell_id r \<longrightarrow>
         attach r x y \<in> set (merge_left df right))
   \<and> length df \<le> length (merge_left df right)
   \<and> (distinct (map fst right) \<longrightarrow>
         map enhanced_row.truncate (merge_left df right) = df \<and>
         merge_left df right =
           map (\<lambda>r. case map_of right (cell_id r) of
                       None \<Rightarrow> attach r None None
                     | Some (x, y) \<Rightarrow> attach r x y) df)
   \<and> select_coordinates [] = Inl (KeyError ''cell_id'')
   \<and> (gdf \<noteq> [] \<longrightarrow>
         select_coordinates gdf = Inr (map (\<lambda>g. (cell_id g, lon g, lat g)) gdf))"
proof -
  have src: "\<And>m. m \<in> set (merge_left df right) \<Longrightarrow>
      \<exists>r \<in> set df. m \<in> set (merge_row right r)"
    by (auto simp: merge_left_def)
  have key: "\<And>m r. m \<in> set (merge_row right r) \<Longrightarrow> cell_id m = cell_id r"
  proof -
    fix m r assume "m \<in> set (merge_row right r)"
    then have "enhanced_row.truncate m = r"
      by (simp add: merge_row_cases)
    then show "cell_id m = cell_id r"
      by (auto simp: enhanced_row.truncate_def)
  qed
  have 1: "\<forall>r \<in> set df. \<exists>m \<in> set (merge_left df right). enhanced_row.truncate m = r"
  proof
    fix r assume r: "r \<in> set df"
    obtain m where m: "m \<in> set (merge_row right r)"
      using merge_row_not_empty [of right r] by (cases "merge_row right r") auto
    then have "m \<in> set (merge_left df right)"
      using r by (auto simp: merge_left_def)
    with m show "\<exists>m \<in> set (merge_left df right). enhanced_row.truncate m = r"
      using merge_row_cases by blast
  qed
  have 2: "\<forall>m \<in> set (merge_left df right). enhanced_row.truncate m \<in> set df"
    using src merge_row_cases by blast
  have 3: "\<forall>r \<in> set df. cell_id r \<notin> fst ` set right \<longrightarrow>
         attach r None None \<in> set (merge_left df right)"
  proof (intro ballI impI)
    fix r assume "r \<in> set df" and "cell_id r \<notin> fst ` set right"
    then show "attach r None None \<in> set (merge_left df right)"
      using merge_row_no_match [of r right] by (force simp: merge_left_def)
  qed
  have 4: "\<forall>m \<in> set (merge_left df right). cell_id m \<notin> fst ` set right \<longrightarrow>
         df_lon m = None \<and> df_lat m = None"
  proof (intro ballI impI)
    fix m assume m: "m \<in> set (merge_left df right)" and k: "cell_id m \<notin> fst ` set right"
    from src [OF m] obtain r where mr: "m \<in> set (merge_row right r)"
      by blast
    with k have "cell_id r \<notin> fst ` set right"
      by (simp add: key)
    with merge_row_cases [OF mr] show "df_lon m = None \<and> df_lat m = None"
      by simp
  qed
  have 5: "\<forall>m \<in> set (merge_left df right). cell_id m \<in> fst ` set right \<longrightarrow>
         (cell_id m, df_lon m, df_lat m) \<in> set right"
  proof (intro ballI impI)
    fix m assume m: "m \<in> set (merge_left df right)" and k: "cell_id m \<in> fst ` set right"
    from src [OF m] obtain r where mr: "m \<in> set (merge_row right r)"
      by blast
    with k have "cell_id r \<in> fst ` set right" and "cell_id m = cell_id r"
      by (simp_all add: key)
    with merge_row_cases [OF mr] show "(cell_id m, df_lon m, df_lat m) \<in> set right"
      by simp
  qed
  have 6: "\<forall>r \<in> set df. \<forall>(c, x, y) \<in> set right. c = cell_id r \<longrightarrow>
         attach r x y \<in> set (merge_left df right)"
  proof (intro ballI, clarify)
    fix r x y assume r: "r \<in> set df" and p: "(cell_id r, x, y) \<in> set right"
    then have "cell_id r \<in> fst ` set right"
      by force
    then have "attach r x y \<in> set (merge_row right r)"
      using p by (auto simp: merge_row_match_set)
    with r show "attach r x y \<in> set (merge_left df right)"
      by (auto simp: merge_left_def)
  qed
  have 7: "length df \<le> length (merge_left df right)"
    by (rule merge_left_length)
  have 8: "distinct (map fst right) \<longrightarrow>
         map enhanced_row.truncate (merge_left df right) = df \<and>
         merge_left df right =
           map (\<lambda>r. case map_of right (cell_id r) of
                       None \<Rightarrow> attach r None None
                     | Some (x, y) \<Rightarrow> attach r x y) df"
    using merge_left_truncate_distinct [of right df] merge_left_lookup [of right df]
    by blast
  have 9: "select_coordinates [] = Inl (KeyError ''cell_id'')"
    and 10: "gdf \<noteq> [] \<longrightarrow>
         select_coordinates gdf = Inr (map (\<lambda>g. (cell_id g, lon g, lat g)) gdf)"
    by (simp_all add: select_coordinates_def)
  show ?thesis
    by (intro conjI 1 2 3 4 5 6 7 8 9 10)
qed

theorem merge_is_left_join_witness:
  "select_coordinates (prep box_ops example_points) =
     Inr [(1, Some 40, Some 0), (2, Some 40, Some 0), (4, Some 43, Some 3)]
   \<and> map enhanced_row.truncate
       (merge_left example_enhanced [(1, Some 40, Some 0), (2, Some 40, Some 0), (4, Some 43, Some 3)]) =
     example_enhanced
   \<and> map (\<lambda>m. (cell_id m, df_lon m, df_lat m))
       (merge_left example_enhanced [(1, Some 40, Some 0), (2, Some 40, Some 0), (4, Some 43, Some 3)]) =
     [(1, Some 40, Some 0), (2, Some 40, Some 0), (3, None, None), (4, Some 43, Some 3)]"
proof -
  let ?gdf = "prep box_ops example_points"
  let ?right = "[(1, Some 40, Some 0), (2, Some 40, Some 0), (4, Some 43, Some 3)]
    :: (nat \<times> pyfloat \<times> pyfloat) list"
  note inst = merge_is_left_join [of example_enhanced ?right ?gdf]
  have ne: "?gdf \<noteq> []"
    by (simp add: prep_def example_points_def)
  have d: "distinct (map fst ?right)"
    by simp
  have "select_coordinates ?gdf = Inr (map (\<lambda>g. (cell_id g, lon g, lat g)) ?gdf)"
    using inst ne by blast
  then have a: "select_coordinates ?gdf = Inr ?right"
    by (simp add: prep_def prep_row_def example_points_def box_ops_def)
  have b: "map enhanced_row.truncate (merge_left example_enhanced ?right) = example_enhanced"
    using inst d by blast
  have "merge_left example_enhanced ?right =
           map (\<lambda>r. case map_of ?right (cell_id r) of
                       None \<Rightarrow> attach r None None
                     | Some (x, y) \<Rightarrow> attach r x y) example_enhanced"
    using inst d by blast
  then have c: "map (\<lambda>m. (cell_id m, df_lon m, df_lat m)) (merge_left example_enhanced ?right) =
     [(1, Some 40, Some 0), (2, Some 40, Some 0), (3, None, None), (4, Some 43, Some 3)]"
    by (simp add: example_enhanced_def attach_def)
  show ?thesis
    by (intro conjI a b c)
qed

section \<open>Spatial filter\<close>

lemma sjoin_single: "sjoin G gdf [u] = filter (\<lambda>r. row_within G r u) gdf"
  by (induction gdf) (simp_all add: sjoin_def)

lemma streamlit_app_reads:
  "streamlit_app rnd G fs county t =
     (case forecast_geojson fs (lower_str county) of
        Inl e \<Rightarrow> Inl e
      | Inr pts \<Rightarrow>
          (case forecast_csv fs (lower_str county) of
             Inl e \<Rightarrow> Inl e
           | Inr tbl \<Rightarrow>
               if pts = [] then Inl (KeyError ''p_hotspot_next'')
               else
                 (let boundary =
                        (case boundary_geojson fs (lower_str county) of
                           Inl e \<Rightarrow> None
                         | Inr b \<Rightarrow> (case dissolve G b of None \<Rightarrow> Some b | Some d \<Rightarrow> Some d));
                      gdf = spatial_filter G boundary (prep G pts)
                  in Inr \<lparr>map_rows = gdf_view t gdf,
                          view_center = center rnd G boundary gdf,
                          flagged_count = flagged t gdf,
                          top_table = take 20 (sort_values_desc G p_hotspot_next tbl),
                          download = table_to_csv tbl\<rparr>)))"
  by (simp add: streamlit_app_def load_data_def Let_def split: sum.splits)

lemma dissolved_boundary_filter:
  assumes "b \<noteq> []" and "union_all G b = Some u"
  shows "dissolve G b = Some [u]"
    and "spatial_filter G (Some [u]) gdf = filter (\<lambda>r. row_within G r u) gdf"
  using assms by (simp_all add: dissolve_def spatial_filter_def sjoin_single)

lemma two_parts_run:
  "streamlit_app (\<lambda>x. x) box_ops (example_files (Inr two_parts)) ''Wajir'' 0.6 =
     Inr \<lparr>map_rows = [prep_row box_ops (example_points ! 0), prep_row box_ops (example_points ! 0),
                      prep_row box_ops (example_points ! 1), prep_row box_ops (example_points ! 1)],
          view_center = (Some 0.5, Some 40.5),
          flagged_count = 4,
          top_table = example_table,
          download = table_to_csv example_table\<rparr>"
  by (simp add: streamlit_app_reads lower_str_def lower_char_def example_files_def two_parts_def
      dissolve_def spatial_filter_def sjoin_def row_within_def gdf_view_def flagged_def
      center_def view_extent_def total_bounds_def half_sum_def prep_def prep_row_def
      box_ops_def example_points_def example_table_def sort_values_desc_def
      stable_argsort_desc_def desc_le_def fge_def Let_def)

text \<open>
  C8. Without a boundary (none loaded, or an empty frame) the spatial filter returns the
  points unchanged, and with a boundary of one feature \<open>u\<close> it returns exactly the rows
  whose point lies within \<open>u\<close>, in their order, none repeated. The loader of the hotspot
  dashboard does not always hand over one feature: when the union raises inside the
  \<open>try\<close>, the boundary stays as it was read, where the loader of the combined dashboard
  sets it to \<open>None\<close>. On the example files with a boundary of two overlapping parts the
  first two points lie within both, the join returns each of them twice, and the run at
  threshold 0.6 maps four rows and counts four cells for two.
\<close>

theorem undissolved_boundary_repeats_points:
  "spatial_filter G None gdf = gdf
   \<and> spatial_filter G (Some []) gdf = gdf
   \<and> spatial_filter G (Some [u]) gdf = filter (\<lambda>r. row_within G r u) gdf
   \<and> subseq (spatial_filter G (Some [u]) gdf) gdf
   \<and> load_data box_ops (example_files (Inr two_parts)) ''Wajir'' =
       Inr (example_points, example_table, Some two_parts)
   \<and> load_data1 box_ops (example_files (Inr two_parts)) ''Wajir'' =
       Inr (example_enhanced, example_points, None)
   \<and> map cell_id (spatial_filter box_ops (Some two_parts) (prep box_ops example_points)) =
       [1, 1, 2, 2]
   \<and> \<not> isl (streamlit_app (\<lambda>x. x) box_ops (example_files (Inr two_parts)) ''Wajir'' 0.6)
   \<and> map cell_id (map_rows (projr
        (streamlit_app (\<lambda>x. x) box_ops (example_files (Inr two_parts)) ''Wajir'' 0.6))) =
       [1, 1, 2, 2]
   \<and> flagged_count (projr
        (streamlit_app (\<lambda>x. x) box_ops (example_files (Inr two_parts)) ''Wajir'' 0.6)) = 4"
proof -
  have k: "lower_str ''Wajir'' = ''wajir''"
    by (simp add: lower_str_def lower_char_def)
  have n: "spatial_filter G None gdf = gdf" and e: "spatial_filter G (Some []) gdf = gdf"
    by (simp_all add: spatial_filter_def)
  have f: "spatial_filter G (Some [u]) gdf = filter (\<lambda>r. row_within G r u) gdf"
    by (simp add: spatial_filter_def sjoin_single)
  have s: "subseq (spatial_filter G (Some [u]) gdf) gdf"
    unfolding f by (rule subseq_filter_left)
  have l: "load_data box_ops (example_files (Inr two_parts)) ''Wajir'' =
       Inr (example_points, example_table, Some two_parts)"
    by (simp add: load_data_def k example_files_def dissolve_def two_parts_def box_ops_def)
  have l1: "load_data1 box_ops (example_files (Inr two_parts)) ''Wajir'' =
       Inr (example_enhanced, example_points, None)"
    by (simp add: load_data1_def k example_files_def dissolve_def two_parts_def box_ops_def)
  have j: "map cell_id (spatial_filter box_ops (Some two_parts) (prep box_ops example_points)) =
       [1, 1, 2, 2]"
    by (simp add: spatial_filter_def sjoin_def row_within_def two_parts_def prep_def
        prep_row_def box_ops_def example_points_def)
  have r1: "\<not> isl (streamlit_app (\<lambda>x. x) box_ops (example_files (Inr two_parts)) ''Wajir'' 0.6)"
    and r2: "map cell_id (map_rows (projr
        (streamlit_app (\<lambda>x. x) box_ops (example_files (Inr two_parts)) ''Wajir'' 0.6))) =
       [1, 1, 2, 2]"
    and r3: "flagged_count (projr
        (streamlit_app (\<lambda>x. x) box_ops (example_files (Inr two_parts)) ''Wajir'' 0.6)) = 4"
    unfolding two_parts_run
    by (simp_all add: prep_row_def example_points_def)
  show ?thesis
    by (intro conjI n e f s l l1 j r1 r2 r3)
qed

section \<open>Loaders\<close>

text \<open>
  C9. In both loaders a failure to read the boundary file gives the boundary \<open>None\<close> and
  the two frames, with no error; a failure to read either required file is the result
  of the loader, whatever the boundary file holds.
\<close>

theorem boundary_failure_is_swallowed:
  "(forecast_geojson fs (lower_str county) = Inr pts \<and>
    forecast_csv fs (lower_str county) = Inr tbl \<and>
    boundary_geojson fs (lower_str county) = Inl e \<longrightarrow>
      load_data G fs county = Inr (pts, tbl, None))
   \<and> (forecast_geojson fs (lower_str county) = Inl e \<longrightarrow> load_data G fs county = Inl e)
   \<and> (forecast_geojson fs (lower_str county) = Inr pts \<and>
      forecast_csv fs (lower_str county) = Inl e \<longrightarrow> load_data G fs county = Inl e)
   \<and> (enhanced_csv fs (lower_str county) = Inr enh \<and>
      forecast_geojson fs (lower_str county) = Inr pts \<and>
      boundary_geojson fs (lower_str county) = Inl e \<longrightarrow>
        load_data1 G fs county = Inr (enh, pts, None))
   \<and> (enhanced_csv fs (lower_str county) = Inl e \<longrightarrow> load_data1 G fs county = Inl e)
   \<and> (enhanced_csv fs (lower_str county) = Inr enh \<and>
      forecast_geojson fs (lower_str county) = Inl e \<longrightarrow> load_data1 G fs county = Inl e)"
  by (simp add: load_data_def load_data1_def)

theorem boundary_failure_is_swallowed_witness:
  "load_data box_ops (example_files (Inl Malformed)) ''Wajir'' =
     Inr (example_points, example_table, None)
   \<and> load_data1 box_ops (example_files (Inl FileNotFound)) ''Wajir'' =
     Inr (example_enhanced, example_points, None)
   \<and> load_data box_ops broken_files ''Wajir'' = Inl Malformed
   \<and> load_data1 box_ops broken_files ''Wajir'' = Inl FileNotFound"
proof -
  have k: "lower_str ''Wajir'' = ''wajir''"
    by (simp add: lower_str_def lower_char_def)
  have a: "load_data box_ops (example_files (Inl Malformed)) ''Wajir'' =
     Inr (example_points, example_table, None)"
    using boundary_failure_is_swallowed
      [of "example_files (Inl Malformed)" "''Wajir''" example_points example_table Malformed box_ops]
    by (simp add: k example_files_def)
  have b: "load_data1 box_ops (example_files (Inl FileNotFound)) ''Wajir'' =
     Inr (example_enhanced, example_points, None)"
    using boundary_failure_is_swallowed
      [of "example_files (Inl FileNotFound)" "''Wajir''" example_points _ FileNotFound box_ops
        example_enhanced]
    by (simp add: k example_files_def)
  have c: "load_data box_ops broken_files ''Wajir'' = Inl Malformed"
    using boundary_failure_is_swallowed
      [of broken_files "''Wajir''" example_points _ Malformed box_ops]
    by (simp add: k broken_files_def)
  have d: "load_data1 box_ops broken_files ''Wajir'' = Inl FileNotFound"
    using boundary_failure_is_swallowed
      [of broken_files "''Wajir''" _ _ FileNotFound box_ops]
    by (simp add: k broken_files_def)
  show ?thesis
    by (intro conjI a b c d)
qed

section \<open>The boundary in the combined dashboard\<close>

lemma streamlit1_app_reads:
  "streamlit1_app rnd G fs county t1 t2 layer =
     (case enhanced_csv fs (lower_str county) of
        Inl e \<Rightarrow> Inl e
      | Inr df0 \<Rightarrow>
          (case forecast_geojson fs (lower_str county) of
             Inl e \<Rightarrow> Inl e
           | Inr gdf_geo \<Rightarrow>
               (case select_coordinates (prep G gdf_geo) of
                  Inl e \<Rightarrow> Inl e
                | Inr coords \<Rightarrow>
                    (let df = merge_left df0 coords;
                         v = df_view layer t1 t2 df
                     in Inr \<lparr>filtered = weighted_view rnd layer v,
                             heatmap = heatmap_data rnd layer v,
                             center1 = (series_mean G (map df_lat df),
                                        series_mean G (map df_lon df)),
                             table1 = display_table G (weighted_view rnd layer v),
                             download1 = view_to_csv (weighted_view rnd layer v)\<rparr>))))"
  by (simp add: streamlit1_app_def load_data1_def Let_def split: sum.splits)

text \<open>
  C10. Two runs of the combined dashboard on files that agree on the enhanced table and
  on the points, and differ in any way in the boundary file, give the same result:
  the same filtered view with its \<open>compound_risk\<close>, map points and weights, centre,
  table and download, or the same error.
\<close>

theorem boundary_has_no_effect_on_combined_dashboard:
  assumes "enhanced_csv fs' = enhanced_csv fs"
    and "forecast_geojson fs' = forecast_geojson fs"
  shows "streamlit1_app rnd G fs' county t1 t2 layer = streamlit1_app rnd G fs county t1 t2 layer"
  unfolding streamlit1_app_reads assms ..

theorem boundary_has_no_effect_on_combined_dashboard_witness:
  "streamlit1_app (\<lambda>x. x) box_ops (example_files (Inr [(39, -1, 41, 1)])) ''Wajir'' 0.6 0.5 CombinedRisk =
     streamlit1_app (\<lambda>x. x) box_ops (example_files (Inl FileNotFound)) ''Wajir'' 0.6 0.5 CombinedRisk
   \<and> load_data1 box_ops (example_files (Inr [(39, -1, 41, 1)])) ''Wajir'' \<noteq>
     load_data1 box_ops (example_files (Inl FileNotFound)) ''Wajir''"
proof -
  have k: "lower_str ''Wajir'' = ''wajir''"
    by (simp add: lower_str_def lower_char_def)
  have a: "enhanced_csv (example_files (Inr [(39, -1, 41, 1)])) =
      enhanced_csv (example_files (Inl FileNotFound))"
    and b: "forecast_geojson (example_files (Inr [(39, -1, 41, 1)])) =
      forecast_geojson (example_files (Inl FileNotFound))"
    by (simp_all add: example_files_def)
  have c: "load_data1 box_ops (example_files (Inr [(39, -1, 41, 1)])) ''Wajir'' \<noteq>
     load_data1 box_ops (example_files (Inl FileNotFound)) ''Wajir''"
    by (simp add: load_data1_def k example_files_def dissolve_def box_ops_def)
  show ?thesis
    using boundary_has_no_effect_on_combined_dashboard [OF a b] c
    by simp
qed

section \<open>Grid colours and legend\<close>

text \<open>
  C6. The grid layer has four buckets with inclusive lower bounds 0.40, 0.60 and 0.80, as
  the legend has. The colour of the three lower buckets is the colour of the legend's
  swatch; in the top bucket the layer paints \<open>(220, 50, 47)\<close> and the legend's swatch
  \<open>#DC3230\<close> is \<open>(220, 50, 48)\<close>, as at \<open>p_hotspot_next = 0.9\<close>.
\<close>

theorem top_bucket_colour_differs_from_legend:
  "get_fill_color p =
     (if fge p 0.80 then (220, 50, 47, 200)
      else if fge p 0.60 then (255, 127, 0, 200)
      else if fge p 0.40 then (255, 215, 0, 200)
      else (150, 150, 150, 200))
   \<and> hex_rgb (legend_swatch p) =
     (if fge p 0.80 then (220, 50, 48)
      else if fge p 0.60 then (255, 127, 0)
      else if fge p 0.40 then (255, 215, 0)
      else (150, 150, 150))
   \<and> get_fill_color (Some 0.9) = (220, 50, 47, 200)
   \<and> hex_rgb (legend_swatch (Some 0.9)) = (220, 50, 48)"
proof -
  have a: "get_fill_color p =
     (if fge p 0.80 then (220, 50, 47, 200)
      else if fge p 0.60 then (255, 127, 0, 200)
      else if fge p 0.40 then (255, 215, 0, 200)
      else (150, 150, 150, 200))"
    by (simp add: get_fill_color_def)
  have b: "hex_rgb (legend_swatch p) =
     (if fge p 0.80 then (220, 50, 48)
      else if fge p 0.60 then (255, 127, 0)
      else if fge p 0.40 then (255, 215, 0)
      else (150, 150, 150))"
    by (cases p) (auto simp: legend_swatch_def legend_def fge_def hex_digit_def)
  have c: "get_fill_color (Some 0.9) = (220, 50, 47, 200)"
    by (simp add: get_fill_color_def fge_def)
  have d: "hex_rgb (legend_swatch (Some 0.9)) = (220, 50, 48)"
    by (simp add: legend_swatch_def legend_def fge_def hex_digit_def)
  show ?thesis
    by (intro conjI a b c d)
qed

section \<open>Download\<close>






lemma select_coordinates_prep:
  "pts \<noteq> [] \<Longrightarrow>
     select_coordinates (prep G pts) = Inr (map (\<lambda>g. (cell_id g, lon g, lat g)) (prep G pts))"
  "select_coordinates (prep G []) = Inl (KeyError ''cell_id'')"
  by (simp_all add: select_coordinates_def prep_def)





section \<open>Centre of the view\<close>

lemma nanmin_Min: "xs \<noteq> [] \<Longrightarrow> nanmin xs = Some (Min (set xs))"
  by (cases xs) (simp_all add: Min.set_eq_fold [symmetric])

lemma nanmax_Max: "xs \<noteq> [] \<Longrightarrow> nanmax xs = Some (Max (set xs))"
  by (cases xs) (simp_all add: Max.set_eq_fold [symmetric])

lemma point_boxes_coordinates:
  "point_boxes gdf = map (\<lambda>(x, y). (x, y, x, y)) (coordinates gdf)"
  by (induction gdf) (simp_all add: point_boxes_def coordinates_def split: option.splits)

lemma total_bounds_points:
  assumes "pts \<noteq> []"
  shows "total_bounds (map (\<lambda>(x, y). (x, y, x, y)) pts) =
     (Some (Min (fst ` set pts)), Some (Min (snd ` set pts)),
      Some (Max (fst ` set pts)), Some (Max (snd ` set pts)))"
proof -
  have 1: "map ((\<lambda>(minx, miny, maxx, maxy). minx) \<circ> (\<lambda>(x, y). (x, y, x, y))) pts = map fst pts"
    and 2: "map ((\<lambda>(minx, miny, maxx, maxy). miny) \<circ> (\<lambda>(x, y). (x, y, x, y))) pts = map snd pts"
    and 3: "map ((\<lambda>(minx, miny, maxx, maxy). maxx) \<circ> (\<lambda>(x, y). (x, y, x, y))) pts = map fst pts"
    and 4: "map ((\<lambda>(minx, miny, maxx, maxy). maxy) \<circ> (\<lambda>(x, y). (x, y, x, y))) pts = map snd pts"
    by (simp_all add: fun_eq_iff split: prod.splits)
  show ?thesis
    using assms by (simp add: total_bounds_def 1 2 3 4 nanmin_Min nanmax_Max)
qed

lemma center_points:
  assumes "gdf \<noteq> []"
  shows "center rnd G None gdf = extent_midpoint rnd (coordinates gdf)"
    and "center rnd G (Some []) gdf = extent_midpoint rnd (coordinates gdf)"
proof -
  have "(case total_bounds (point_boxes gdf) of
          (minx, miny, maxx, maxy) \<Rightarrow> (half_sum rnd miny maxy, half_sum rnd minx maxx)) =
        extent_midpoint rnd (coordinates gdf)"
  proof (cases "coordinates gdf = []")
    case True
    then show ?thesis
      by (simp add: point_boxes_coordinates total_bounds_def extent_midpoint_def half_sum_def)
  next
    case False
    then show ?thesis
      by (simp add: point_boxes_coordinates total_bounds_points extent_midpoint_def
          half_sum_def float_midpoint_def)
  qed
  with assms show "center rnd G None gdf = extent_midpoint rnd (coordinates gdf)"
    and "center rnd G (Some []) gdf = extent_midpoint rnd (coordinates gdf)"
    by (simp_all add: center_def view_extent_def)
qed

lemma total_bounds_midpoint:
  "bs \<noteq> [] \<Longrightarrow>
     (case total_bounds bs of
        (minx, miny, maxx, maxy) \<Rightarrow> (half_sum rnd miny maxy, half_sum rnd minx maxx)) =
     bounding_box_midpoint rnd bs"
  by (simp add: total_bounds_def half_sum_def bounding_box_midpoint_def float_midpoint_def
      nanmin_Min nanmax_Max)

lemma center_boundary:
  assumes "b \<noteq> []"
  shows "center rnd G (Some b) gdf = bounding_box_midpoint rnd (map (geom_bounds G) b)"
proof -
  have "map (geom_bounds G) b \<noteq> []"
    using assms by simp
  then show ?thesis
    using assms by (simp add: center_def view_extent_def total_bounds_midpoint)
qed

lemma center_default:
  "center rnd G None [] = (Some (float_midpoint rnd 2 5), Some (float_midpoint rnd 35 37))"
  "center rnd G (Some []) [] = (Some (float_midpoint rnd 2 5), Some (float_midpoint rnd 35 37))"
  by (simp_all add: center_def view_extent_def half_sum_def float_midpoint_def)

lemma loaded_boundary_not_empty:
  "b \<noteq> [] \<Longrightarrow> (case dissolve G b of None \<Rightarrow> Some b | Some d \<Rightarrow> Some d) =
     Some (case union_all G b of None \<Rightarrow> b | Some u \<Rightarrow> [u])"
  by (simp add: dissolve_def split: option.splits)

text \<open>
  C5, as the program has it. Lines 66 to 74 of the hotspot dashboard centre the view on
  the midpoint of the bounding box of the boundary when a boundary is available, else
  on the midpoint of the coordinate extent of the points when the frame has rows, else
  on the midpoint of the fixed extent, which is \<open>(3.5, 36)\<close>; each midpoint is computed in
  double precision. In a run whose files load and whose points file has features, the
  centre is the midpoint of the box of the boundary as loaded (dissolved, or as read
  when the union raised) when the boundary file has features, and the midpoint of the
  extent of all the points when the boundary file does not load or is empty. No run
  reaches the fixed extent: a points file without features ends the run in \<open>KeyError\<close>
  before the centre is computed. The combined dashboard centres the view on
  \<open>Series.mean()\<close> of \<open>lat\<close> and of \<open>lon\<close> over the merged frame, whatever the boundary.
\<close>

theorem view_center_by_dashboard:
  "(b \<noteq> [] \<longrightarrow> center rnd G (Some b) gdf = bounding_box_midpoint rnd (map (geom_bounds G) b))
   \<and> (gdf \<noteq> [] \<longrightarrow> center rnd G None gdf = extent_midpoint rnd (coordinates gdf) \<and>
                     center rnd G (Some []) gdf = extent_midpoint rnd (coordinates gdf))
   \<and> center rnd G None [] = (Some (float_midpoint rnd 2 5), Some (float_midpoint rnd 35 37))
   \<and> center rnd G (Some []) [] = (Some (float_midpoint rnd 2 5), Some (float_midpoint rnd 35 37))
   \<and> (rnd 7 = 7 \<and> rnd (7 / 2) = 7 / 2 \<and> rnd 72 = 72 \<and> rnd 36 = 36 \<longrightarrow>
        float_midpoint rnd 2 5 = 3.5 \<and> float_midpoint rnd 35 37 = 36)
   \<and> (forecast_geojson fs (lower_str county) = Inr pts \<and>
      forecast_csv fs (lower_str county) = Inr tbl \<and> pts \<noteq> [] \<and>
      boundary_geojson fs (lower_str county) = Inr b \<and> b \<noteq> [] \<longrightarrow>
        (\<exists>out. streamlit_app rnd G fs county t = Inr out \<and>
           view_center out =
             bounding_box_midpoint rnd
               (map (geom_bounds G) (case union_all G b of None \<Rightarrow> b | Some u \<Rightarrow> [u]))))
   \<and> (forecast_geojson fs (lower_str county) = Inr pts \<and>
      forecast_csv fs (lower_str county) = Inr tbl \<and> pts \<noteq> [] \<and>
      boundary_geojson fs (lower_str county) = Inl e \<longrightarrow>
        (\<exists>out. streamlit_app rnd G fs county t = Inr out \<and>
           view_center out = extent_midpoint rnd (coordinates (prep G pts))))
   \<and> (forecast_geojson fs (lower_str county) = Inr pts \<and>
      forecast_csv fs (lower_str county) = Inr tbl \<and> pts \<noteq> [] \<and>
      boundary_geojson fs (lower_str county) = Inr [] \<longrightarrow>
        (\<exists>out. streamlit_app rnd G fs county t = Inr out \<and>
           view_center out = extent_midpoint rnd (coordinates (prep G pts))))
   \<and> (forecast_geojson fs (lower_str county) = Inr [] \<and>
      forecast_csv fs (lower_str county) = Inr tbl \<longrightarrow>
        streamlit_app rnd G fs county t = Inl (KeyError ''p_hotspot_next''))
   \<and> (enhanced_csv fs (lower_str county) = Inr df0 \<and>
      forecast_geojson fs (lower_str county) = Inr pts \<and> pts \<noteq> [] \<longrightarrow>
        (\<exists>out. streamlit1_app rnd G fs county t1 t2 layer = Inr out \<and>
           center1 out =
             (series_mean G (map df_lat
                (merge_left df0 (map (\<lambda>g. (cell_id g, lon g, lat g)) (prep G pts)))),
              series_mean G (map df_lon
                (merge_left df0 (map (\<lambda>g. (cell_id g, lon g, lat g)) (prep G pts)))))))"
proof -
  have a: "b \<noteq> [] \<longrightarrow> center rnd G (Some b) gdf = bounding_box_midpoint rnd (map (geom_bounds G) b)"
    by (simp add: center_boundary)
  have p: "gdf \<noteq> [] \<longrightarrow> center rnd G None gdf = extent_midpoint rnd (coordinates gdf) \<and>
                     center rnd G (Some []) gdf = extent_midpoint rnd (coordinates gdf)"
    by (simp add: center_points)
  have c: "center rnd G None [] = (Some (float_midpoint rnd 2 5), Some (float_midpoint rnd 35 37))"
    and d: "center rnd G (Some []) [] =
      (Some (float_midpoint rnd 2 5), Some (float_midpoint rnd 35 37))"
    by (rule center_default)+
  have v: "rnd 7 = 7 \<and> rnd (7 / 2) = 7 / 2 \<and> rnd 72 = 72 \<and> rnd 36 = 36 \<longrightarrow>
        float_midpoint rnd 2 5 = 3.5 \<and> float_midpoint rnd 35 37 = 36"
    by (simp add: float_midpoint_def)
  have prep_ne: "pts \<noteq> [] \<Longrightarrow> prep G pts \<noteq> []"
    by (simp add: prep_def)
  have e: "forecast_geojson fs (lower_str county) = Inr pts \<and>
      forecast_csv fs (lower_str county) = Inr tbl \<and> pts \<noteq> [] \<and>
      boundary_geojson fs (lower_str county) = Inr b \<and> b \<noteq> [] \<longrightarrow>
        (\<exists>out. streamlit_app rnd G fs county t = Inr out \<and>
           view_center out =
             bounding_box_midpoint rnd
               (map (geom_bounds G) (case union_all G b of None \<Rightarrow> b | Some u \<Rightarrow> [u])))"
  proof
    assume h: "forecast_geojson fs (lower_str county) = Inr pts \<and>
      forecast_csv fs (lower_str county) = Inr tbl \<and> pts \<noteq> [] \<and>
      boundary_geojson fs (lower_str county) = Inr b \<and> b \<noteq> []"
    let ?b = "case union_all G b of None \<Rightarrow> b | Some u \<Rightarrow> [u]"
    have ne: "?b \<noteq> []"
      using h by (simp split: option.splits)
    show "\<exists>out. streamlit_app rnd G fs county t = Inr out \<and>
           view_center out = bounding_box_midpoint rnd (map (geom_bounds G) ?b)"
      using h center_boundary [OF ne, of rnd G]
      by (simp add: streamlit_app_reads loaded_boundary_not_empty Let_def)
  qed
  have f: "forecast_geojson fs (lower_str county) = Inr pts \<and>
      forecast_csv fs (lower_str county) = Inr tbl \<and> pts \<noteq> [] \<and>
      boundary_geojson fs (lower_str county) = Inl e \<longrightarrow>
        (\<exists>out. streamlit_app rnd G fs county t = Inr out \<and>
           view_center out = extent_midpoint rnd (coordinates (prep G pts)))"
    using center_points(1) [OF prep_ne, where rnd = rnd and G = G]
    by (simp add: streamlit_app_reads spatial_filter_def Let_def)
  have g: "forecast_geojson fs (lower_str county) = Inr pts \<and>
      forecast_csv fs (lower_str county) = Inr tbl \<and> pts \<noteq> [] \<and>
      boundary_geojson fs (lower_str county) = Inr [] \<longrightarrow>
        (\<exists>out. streamlit_app rnd G fs county t = Inr out \<and>
           view_center out = extent_midpoint rnd (coordinates (prep G pts)))"
    using center_points(2) [OF prep_ne, where rnd = rnd and G = G]
    by (simp add: streamlit_app_reads spatial_filter_def dissolve_def Let_def)
  have k: "forecast_geojson fs (lower_str county) = Inr [] \<and>
      forecast_csv fs (lower_str county) = Inr tbl \<longrightarrow>
        streamlit_app rnd G fs county t = Inl (KeyError ''p_hotspot_next'')"
    by (simp add: streamlit_app_reads)
  have m: "enhanced_csv fs (lower_str county) = Inr df0 \<and>
      forecast_geojson fs (lower_str county) = Inr pts \<and> pts \<noteq> [] \<longrightarrow>
        (\<exists>out. streamlit1_app rnd G fs county t1 t2 layer = Inr out \<and>
           center1 out =
             (series_mean G (map df_lat
                (merge_left df0 (map (\<lambda>g. (cell_id g, lon g, lat g)) (prep G pts)))),
              series_mean G (map df_lon
                (merge_left df0 (map (\<lambda>g. (cell_id g, lon g, lat g)) (prep G pts))))))"
    by (simp add: streamlit1_app_reads select_coordinates_prep Let_def)
  show ?thesis
    by (intro conjI a p c d v e f g k m)
qed

theorem view_center_by_dashboard_witness:
  "(\<exists>out. streamlit_app (\<lambda>x. x) box_ops (example_files (Inr [(39, -1, 41, 1)])) ''Wajir'' 0.6 =
            Inr out \<and>
          view_center out = (Some 0, Some 40))
   \<and> (\<exists>out. streamlit_app (\<lambda>x. x) box_ops (example_files (Inl FileNotFound)) ''Wajir'' 0.6 =
            Inr out \<and>
          view_center out = (Some 1.5, Some 41.5))
   \<and> streamlit_app (\<lambda>x. x) box_ops no_features ''Wajir'' 0.6 = Inl (KeyError ''p_hotspot_next'')
   \<and> center (\<lambda>x. x) box_ops None [] = (Some 3.5, Some 36)
   \<and> (\<exists>out. streamlit1_app (\<lambda>x. x) box_ops (example_files (Inl FileNotFound)) ''Wajir'' 0.6 0.5
            HotspotOnly = Inr out \<and>
          center1 out = (Some 1, Some 41))"
proof -
  let ?u = "(39, -1, 41, 1) :: real \<times> real \<times> real \<times> real"
  let ?fs = "example_files (Inl FileNotFound)"
  let ?fsb = "example_files (Inr [?u])"
  let ?gdf = "prep box_ops example_points"
  note with_boundary = view_center_by_dashboard
    [where rnd = "\<lambda>x. x" and G = box_ops and fs = ?fsb and county = "''Wajir''"
       and pts = example_points and tbl = example_table and b = "[?u]" and t = "0.6"]
  note without = view_center_by_dashboard
    [where rnd = "\<lambda>x. x" and G = box_ops and fs = ?fs and county = "''Wajir''"
       and pts = example_points and tbl = example_table and e = FileNotFound and t = "0.6"
       and ?df0.0 = example_enhanced and ?t1.0 = "0.6" and ?t2.0 = "0.5"
       and layer = HotspotOnly]
  note empty = view_center_by_dashboard
    [where rnd = "\<lambda>x. x" and G = box_ops and fs = no_features and county = "''Wajir''"
       and tbl = example_table and t = "0.6"]
  have k: "lower_str ''Wajir'' = ''wajir''"
    by (simp add: lower_str_def lower_char_def)
  have ne: "example_points \<noteq> []"
    by (simp add: example_points_def)
  have rb: "forecast_geojson ?fsb (lower_str ''Wajir'') = Inr example_points \<and>
      forecast_csv ?fsb (lower_str ''Wajir'') = Inr example_table \<and> example_points \<noteq> [] \<and>
      boundary_geojson ?fsb (lower_str ''Wajir'') = Inr [?u] \<and> [?u] \<noteq> []"
    by (simp add: k example_files_def ne)
  have mb: "bounding_box_midpoint (\<lambda>x. x)
      (map (geom_bounds box_ops) (case union_all box_ops [?u] of None \<Rightarrow> [?u] | Some u \<Rightarrow> [u])) =
      (Some 0, Some 40)"
    by (simp add: bounding_box_midpoint_def float_midpoint_def box_ops_def)
  have r: "forecast_geojson ?fs (lower_str ''Wajir'') = Inr example_points \<and>
      forecast_csv ?fs (lower_str ''Wajir'') = Inr example_table \<and> example_points \<noteq> [] \<and>
      boundary_geojson ?fs (lower_str ''Wajir'') = Inl FileNotFound"
    by (simp add: k example_files_def ne)
  have ext: "extent_midpoint (\<lambda>x. x) (coordinates ?gdf) = (Some 1.5, Some 41.5)"
    by (simp add: extent_midpoint_def float_midpoint_def coordinates_def prep_def prep_row_def
        example_points_def box_ops_def)
  have r0: "forecast_geojson no_features (lower_str ''Wajir'') = Inr [] \<and>
      forecast_csv no_features (lower_str ''Wajir'') = Inr example_table"
    by (simp add: k no_features_def)
  have r1: "enhanced_csv ?fs (lower_str ''Wajir'') = Inr example_enhanced \<and>
      forecast_geojson ?fs (lower_str ''Wajir'') = Inr example_points \<and> example_points \<noteq> []"
    by (simp add: k example_files_def ne)
  have means: "(series_mean box_ops (map df_lat
        (merge_left example_enhanced (map (\<lambda>g. (cell_id g, lon g, lat g)) ?gdf))),
      series_mean box_ops (map df_lon
        (merge_left example_enhanced (map (\<lambda>g. (cell_id g, lon g, lat g)) ?gdf)))) =
      (Some 1, Some 41)"
    by (simp add: merge_left_def merge_row_def attach_def prep_def prep_row_def
        example_enhanced_def example_points_def box_ops_def exact_mean_def)
  have fixed: "(\<lambda>x::real. x) 7 = 7 \<and> (\<lambda>x::real. x) (7 / 2) = 7 / 2 \<and>
      (\<lambda>x::real. x) 72 = 72 \<and> (\<lambda>x::real. x) 36 = 36"
    by simp
  have a: "\<exists>out. streamlit_app (\<lambda>x. x) box_ops ?fsb ''Wajir'' 0.6 = Inr out \<and>
          view_center out = (Some 0, Some 40)"
    using with_boundary rb mb by auto
  have b: "\<exists>out. streamlit_app (\<lambda>x. x) box_ops ?fs ''Wajir'' 0.6 = Inr out \<and>
          view_center out = (Some 1.5, Some 41.5)"
    using without r ext by auto
  have c: "streamlit_app (\<lambda>x. x) box_ops no_features ''Wajir'' 0.6 = Inl (KeyError ''p_hotspot_next'')"
    using empty r0 by blast
  have d: "center (\<lambda>x. x) box_ops None [] = (Some 3.5, Some 36)"
    using without fixed by auto
  have e: "\<exists>out. streamlit1_app (\<lambda>x. x) box_ops ?fs ''Wajir'' 0.6 0.5 HotspotOnly = Inr out \<and>
          center1 out = (Some 1, Some 41)"
    using without r1 means by auto
  show ?thesis
    by (intro conjI a b c d e)
qed

text \<open>
  The combined dashboard on the example files, with the boundary file missing and with
  it present: the centre is the mean \<open>(1, 41)\<close> both times, neither the midpoint
  \<open>(1.5, 41.5)\<close> of the extent of the points nor the midpoint \<open>(0, 40)\<close> of the boundary's
  box.
\<close>

lemma example_run1_center:
  "center1 (projr (streamlit1_app (\<lambda>x. x) box_ops (example_files bf) ''Wajir'' 0.6 0.5 HotspotOnly)) =
     (Some 1, Some 41)"
  by (simp add: streamlit1_app_reads lower_str_def lower_char_def example_files_def Let_def
      select_coordinates_def merge_left_def merge_row_def attach_def prep_def prep_row_def
      example_enhanced_def example_points_def box_ops_def exact_mean_def)

theorem combined_dashboard_center_counterexample:
  "\<not> isl (streamlit1_app (\<lambda>x. x) box_ops (example_files (Inl FileNotFound)) ''Wajir'' 0.6 0.5
          HotspotOnly)
   \<and> center1 (projr (streamlit1_app (\<lambda>x. x) box_ops (example_files (Inl FileNotFound)) ''Wajir''
        0.6 0.5 HotspotOnly)) = (Some 1, Some 41)
   \<and> extent_midpoint (\<lambda>x. x) (coordinates (prep box_ops example_points)) = (Some 1.5, Some 41.5)
   \<and> center1 (projr (streamlit1_app (\<lambda>x. x) box_ops (example_files (Inr [(39, -1, 41, 1)]))
        ''Wajir'' 0.6 0.5 HotspotOnly)) = (Some 1, Some 41)
   \<and> bounding_box_midpoint (\<lambda>x. x) [(39, -1, 41, 1)] = (Some 0, Some 40)"
proof -
  have a: "\<not> isl (streamlit1_app (\<lambda>x. x) box_ops (example_files (Inl FileNotFound)) ''Wajir''
       0.6 0.5 HotspotOnly)"
    by (simp add: streamlit1_app_reads lower_str_def lower_char_def example_files_def Let_def
        select_coordinates_def prep_def example_points_def)
  have b: "extent_midpoint (\<lambda>x. x) (coordinates (prep box_ops example_points)) =
      (Some 1.5, Some 41.5)"
    by (simp add: extent_midpoint_def float_midpoint_def coordinates_def prep_def prep_row_def
        example_points_def box_ops_def)
  have c: "bounding_box_midpoint (\<lambda>x. x) [(39, -1, 41, 1)] = (Some 0, Some 40)"
    by (simp add: bounding_box_midpoint_def float_midpoint_def)
  show ?thesis
    by (intro conjI a b c example_run1_center)
qed

end
